theory Spec2Isabelle
  imports Complex_Main "HOL-Library.Char_ord" "HOL-Library.List_Lexorder" "HOL-Library.Sublist"
begin

section \<open>Python strings\<close>

text \<open>
  A Python \<open>str\<close> is modelled as a \<open>string\<close> holding its UTF-8 bytes. The character
  predicates below are the ASCII part of Python's \<open>str.isspace\<close>, \<open>str.isupper\<close>,
  \<open>\d\<close>, \<open>\w\<close> and \<open>str.lower\<close>; a byte above 127 is neither space, digit, letter nor
  word character here, and \<open>length\<close> counts bytes. On ASCII text the model and Python
  agree. Python compares strings by code point, which on UTF-8 bytes is the
  lexicographic order of \<open>HOL-Library.List_Lexorder\<close> over \<open>HOL-Library.Char_ord\<close>.
  Python floats are modelled as exact rationals.
\<close>

definition newline :: char where
  "newline = CHR 0x0A"

text \<open>The bullet U+2022 and the middle dot U+00B7, in UTF-8.\<close>

definition bullet :: string where
  "bullet = [CHR 0xE2, CHR 0x80, CHR 0xA2]"

definition middle_dot :: string where
  "middle_dot = [CHR 0xC2, CHR 0xB7]"

definition is_digit :: "char \<Rightarrow> bool" where
  "is_digit c = (CHR ''0'' \<le> c \<and> c \<le> CHR ''9'')"

definition is_upper :: "char \<Rightarrow> bool" where
  "is_upper c = (CHR ''A'' \<le> c \<and> c \<le> CHR ''Z'')"

definition is_lower :: "char \<Rightarrow> bool" where
  "is_lower c = (CHR ''a'' \<le> c \<and> c \<le> CHR ''z'')"

definition is_alpha :: "char \<Rightarrow> bool" where
  "is_alpha c = (is_upper c \<or> is_lower c)"

definition is_word :: "char \<Rightarrow> bool" where
  "is_word c = (is_alpha c \<or> is_digit c \<or> c = CHR ''_'')"

definition is_space :: "char \<Rightarrow> bool" where
  "is_space c = (c \<in> set [CHR 0x09, CHR 0x0A, CHR 0x0B, CHR 0x0C, CHR 0x0D, CHR 0x1C, CHR 0x1D,
                            CHR 0x1E, CHR 0x1F, CHR 0x20])"

text \<open>An ASCII capital becomes the letter 32 code points above it: bit 5 of the
  character is set.\<close>

definition to_lower :: "char \<Rightarrow> char" where
  "to_lower c =
     (if is_upper c
      then (case c of Char b0 b1 b2 b3 b4 b5 b6 b7 \<Rightarrow> Char b0 b1 b2 b3 b4 True b6 b7)
      else c)"

definition lower :: "string \<Rightarrow> string" where
  "lower s = map to_lower s"

definition strip :: "string \<Rightarrow> string" where
  "strip s = rev (dropWhile is_space (rev (dropWhile is_space s)))"

text \<open>\<open>s.isupper()\<close>: at least one cased character and no lowercase one.\<close>

definition isupper :: "string \<Rightarrow> bool" where
  "isupper s = (list_ex is_upper s \<and> \<not> list_ex is_lower s)"

text \<open>\<open>sub in s\<close> and \<open>s.startswith(p)\<close>.\<close>

fun contains :: "string \<Rightarrow> string \<Rightarrow> bool" where
  "contains sub [] = (sub = [])"
| "contains sub (c # cs) = (prefix sub (c # cs) \<or> contains sub cs)"

definition startswith :: "string \<Rightarrow> string \<Rightarrow> bool" where
  "startswith s p = prefix p s"

text \<open>
  \<open>s.split(sep)\<close> for a non-empty separator (every separator of the source is a
  non-empty literal; Python raises \<open>ValueError\<close> on an empty one).
\<close>

fun split :: "string \<Rightarrow> string \<Rightarrow> string list" where
  "split sep [] = [[]]"
| "split sep (c # cs) =
     (if sep \<noteq> [] \<and> prefix sep (c # cs) then [] # split sep (drop (length sep - 1) cs)
      else (case split sep cs of [] \<Rightarrow> [[c]] | w # ws \<Rightarrow> (c # w) # ws))"

text \<open>\<open>s.split(sep, 1)\<close>: \<open>None\<close> when the separator does not occur (a one-element list in
  Python), otherwise the text before and after its first occurrence.\<close>

fun split1 :: "string \<Rightarrow> string \<Rightarrow> (string \<times> string) option" where
  "split1 sep [] = (if sep = [] then Some ([], []) else None)"
| "split1 sep (c # cs) =
     (if prefix sep (c # cs) then Some ([], drop (length sep) (c # cs))
      else map_option (\<lambda>(a, b). (c # a, b)) (split1 sep cs))"

fun join :: "string \<Rightarrow> string list \<Rightarrow> string" where
  "join sep [] = []"
| "join sep [x] = x"
| "join sep (x # y # ys) = x @ sep @ join sep (y # ys)"

text \<open>Truthiness of an optional string (\<open>None\<close> and \<open>''\<close> are falsy).\<close>

definition truthy :: "string option \<Rightarrow> bool" where
  "truthy v = (case v of None \<Rightarrow> False | Some s \<Rightarrow> s \<noteq> [])"

text \<open>\<open>lines[a:b]\<close> for \<open>0 \<le> a\<close>.\<close>

definition slice :: "nat \<Rightarrow> nat \<Rightarrow> 'a list \<Rightarrow> 'a list" where
  "slice a b xs = take (b - a) (drop a xs)"

section \<open>Regular expressions (the part of Python's \<open>re\<close> the source uses)\<close>

text \<open>
  A backtracking matcher with Python's priorities: alternatives left to right,
  repetition greedy. A position is the pair of the text before it (reversed) and the
  text after it; \<open>rmatch r p\<close> lists the end positions of the matches of \<open>r\<close> that start
  at \<open>p\<close>, in the order Python tries them. \<open>re.search\<close> tries the start positions from left
  to right and takes the first match. No starred expression of the source matches the
  empty string, so an iteration that consumes nothing is cut off.
\<close>

datatype regex =
    Eps
  | Cls "char \<Rightarrow> bool"
  | Seq regex regex
  | Alt regex regex
  | Star regex
  | Bnd

type_synonym pos = "string \<times> string"

definition at_boundary :: "pos \<Rightarrow> bool" where
  "at_boundary p = ((case fst p of [] \<Rightarrow> False | c # _ \<Rightarrow> is_word c) \<noteq>
                    (case snd p of [] \<Rightarrow> False | c # _ \<Rightarrow> is_word c))"

function rmatch :: "regex \<Rightarrow> pos \<Rightarrow> pos list" where
  "rmatch Eps p = [p]"
| "rmatch (Cls f) p = (case snd p of [] \<Rightarrow> [] | c # cs \<Rightarrow> if f c then [(c # fst p, cs)] else [])"
| "rmatch (Seq r1 r2) p = concat (map (rmatch r2) (rmatch r1 p))"
| "rmatch (Alt r1 r2) p = rmatch r1 p @ rmatch r2 p"
| "rmatch (Star r) p =
     concat (map (\<lambda>q. if length (snd q) < length (snd p) then rmatch (Star r) q else [])
                 (rmatch r p)) @ [p]"
| "rmatch Bnd p = (if at_boundary p then [p] else [])"
  by pat_completeness auto
termination
  by (relation "inv_image (less_than <*lex*> less_than) (\<lambda>(r, p). (size r, length (snd p)))") auto

text \<open>The equation for \<open>Star\<close> unfolds without end; it is used by name.\<close>

declare rmatch.simps(5) [simp del]

definition chr :: "char \<Rightarrow> regex" where
  "chr c = Cls (\<lambda>x. x = c)"

definition chr_ci :: "char \<Rightarrow> regex" where
  "chr_ci c = Cls (\<lambda>x. to_lower x = to_lower c)"

definition one_of :: "string \<Rightarrow> regex" where
  "one_of cs = Cls (\<lambda>c. c \<in> set cs)"

fun seqs :: "regex list \<Rightarrow> regex" where
  "seqs [] = Eps"
| "seqs [r] = r"
| "seqs (r # rs) = Seq r (seqs rs)"

fun alts :: "regex list \<Rightarrow> regex" where
  "alts [] = Seq (Cls (\<lambda>_. False)) Eps"
| "alts [r] = r"
| "alts (r # rs) = Alt r (alts rs)"

definition lit :: "string \<Rightarrow> regex" where
  "lit s = seqs (map chr s)"

definition lit_ci :: "string \<Rightarrow> regex" where
  "lit_ci s = seqs (map chr_ci s)"

definition rplus :: "regex \<Rightarrow> regex" where
  "rplus r = Seq r (Star r)"

definition ropt :: "regex \<Rightarrow> regex" where
  "ropt r = Alt r Eps"

fun rep :: "nat \<Rightarrow> regex \<Rightarrow> regex" where
  "rep 0 r = Eps"
| "rep (Suc n) r = Seq r (rep n r)"

fun rep_upto :: "nat \<Rightarrow> regex \<Rightarrow> regex" where
  "rep_upto 0 r = Eps"
| "rep_upto (Suc n) r = ropt (Seq r (rep_upto n r))"

text \<open>\<open>r{m,n}\<close>\<close>

definition rep_range :: "nat \<Rightarrow> nat \<Rightarrow> regex \<Rightarrow> regex" where
  "rep_range m n r = Seq (rep m r) (rep_upto (n - m) r)"

abbreviation digit :: regex where "digit \<equiv> Cls is_digit"
abbreviation space :: regex where "space \<equiv> Cls is_space"
abbreviation wordc :: regex where "wordc \<equiv> Cls is_word"
abbreviation upper :: regex where "upper \<equiv> Cls is_upper"
abbreviation lowerc :: regex where "lowerc \<equiv> Cls is_lower"

text \<open>The text between two positions of the same string.\<close>

definition matched :: "pos \<Rightarrow> pos \<Rightarrow> string" where
  "matched p q = take (length (snd p) - length (snd q)) (snd p)"

text \<open>
  A pattern whose capture groups are top-level factors is given as the list of its
  factors; a match is the list of the positions between them, so that group \<open>k\<close> is the
  text between positions \<open>k\<close> and \<open>k + 1\<close>.
\<close>

fun rmatch_parts :: "regex list \<Rightarrow> pos \<Rightarrow> pos list list" where
  "rmatch_parts [] p = [[p]]"
| "rmatch_parts (r # rs) p =
     concat (map (\<lambda>q. map (\<lambda>qs. p # qs) (rmatch_parts rs q)) (rmatch r p))"

fun search_parts_from :: "regex list \<Rightarrow> string \<Rightarrow> string \<Rightarrow> pos list option" where
  "search_parts_from rs pre [] =
     (case rmatch_parts rs (pre, []) of [] \<Rightarrow> None | m # _ \<Rightarrow> Some m)"
| "search_parts_from rs pre (c # cs) =
     (case rmatch_parts rs (pre, c # cs) of
        [] \<Rightarrow> search_parts_from rs (c # pre) cs
      | m # _ \<Rightarrow> Some m)"

text \<open>\<open>re.search(parts, s)\<close>, giving the text of each factor of the first match.\<close>

definition groups :: "pos list \<Rightarrow> string list" where
  "groups m = map (\<lambda>(p, q). matched p q) (zip m (tl m))"

definition re_search_parts :: "regex list \<Rightarrow> string \<Rightarrow> string list option" where
  "re_search_parts rs s = map_option groups (search_parts_from rs [] s)"

text \<open>\<open>re.search(r, s)\<close>, giving the matched text; \<open>re.match(r, s)\<close> as a test.\<close>

definition re_search :: "regex \<Rightarrow> string \<Rightarrow> string option" where
  "re_search r s = map_option (\<lambda>g. concat g) (re_search_parts [r] s)"

definition re_found :: "regex \<Rightarrow> string \<Rightarrow> bool" where
  "re_found r s = (re_search r s \<noteq> None)"

definition re_match :: "regex \<Rightarrow> string \<Rightarrow> bool" where
  "re_match r s = (rmatch r ([], s) \<noteq> [])"

text \<open>
  \<open>re.findall(r, s)\<close> for a pattern without capture groups: the matches from left to
  right, each search starting where the previous match ended (one character further
  after an empty match).
\<close>

function findall_from :: "regex \<Rightarrow> string \<Rightarrow> string \<Rightarrow> string list" where
  "findall_from r pre s =
     (case search_parts_from [r] pre s of
        Some [p, q] \<Rightarrow>
          matched p q #
          (if length (snd q) < length (snd p) \<and> length (snd q) < length s
           then findall_from r (fst q) (snd q)
           else (case snd q of
                   c # cs \<Rightarrow> if length cs < length s then findall_from r (c # fst q) cs else []
                 | [] \<Rightarrow> []))
      | _ \<Rightarrow> [])"
  by pat_completeness auto
termination
  by (relation "measure (\<lambda>(r, pre, s). length s)") auto

definition re_findall :: "regex \<Rightarrow> string \<Rightarrow> string list" where
  "re_findall r s = findall_from r [] s"

section \<open>The resume model (\<open>models/resume.py\<close>)\<close>

text \<open>
  The dictionaries appended by \<open>add_experience\<close> and \<open>add_education\<close> are records with
  one field per key. \<open>parsed_date\<close> (the wall clock at construction) is left out; the
  attributes \<open>skill_score\<close> and \<open>format_score\<close>, which only \<open>score_resume\<close> creates, are
  \<open>None\<close> until then.
\<close>

record experience_entry =
  company :: string
  title :: string
  start_date :: "string option"
  end_date :: "string option"
  location :: "string option"
  description :: "string option"
  responsibilities :: "string list"

record education_entry =
  institution :: string
  degree :: string
  field :: "string option"
  start_date :: "string option"
  end_date :: "string option"
  gpa :: "rat option"
  location :: "string option"
  description :: "string option"

record project_entry =
  project_name :: string
  project_description :: "string option"
  technologies :: "string list"
  project_start_date :: "string option"
  project_end_date :: "string option"
  project_url :: "string option"

record certification_entry =
  certification_name :: string
  issuer :: "string option"
  certification_date :: "string option"
  expiration_date :: "string option"
  certification_url :: "string option"

record language_entry =
  language :: string
  proficiency :: string

record resume =
  raw_text :: string
  filename :: string
  name :: "string option"
  email :: "string option"
  phone :: "string option"
  location :: "string option"
  linkedin :: "string option"
  website :: "string option"
  summary :: "string option"
  skills :: "string list"
  education :: "education_entry list"
  experience :: "experience_entry list"
  projects :: "project_entry list"
  certifications :: "certification_entry list"
  languages :: "language_entry list"
  skill_scores :: "(string \<times> rat) list"
  experience_score :: rat
  education_score :: rat
  overall_score :: rat
  recommendations :: "string list"
  skill_score :: "rat option"
  format_score :: "rat option"

text \<open>\<open>Resume(raw_text, filename)\<close>\<close>

definition Resume :: "string \<Rightarrow> string \<Rightarrow> resume" where
  "Resume text fname =
     \<lparr>raw_text = text, filename = fname, name = None, email = None, phone = None,
      resume.location = None, linkedin = None, website = None, summary = None, skills = [],
      education = [], experience = [], projects = [], certifications = [], languages = [],
      skill_scores = [], experience_score = 0, education_score = 0, overall_score = 0,
      recommendations = [], skill_score = None, format_score = None\<rparr>"

definition add_education ::
  "string \<Rightarrow> string \<Rightarrow> string option \<Rightarrow> string option \<Rightarrow> string option \<Rightarrow> rat option \<Rightarrow>
   string option \<Rightarrow> string option \<Rightarrow> resume \<Rightarrow> resume" where
  "add_education inst deg fld sd ed g loc descr r =
     r\<lparr>education := education r @
        [\<lparr>institution = inst, degree = deg, field = fld, education_entry.start_date = sd,
          education_entry.end_date = ed, gpa = g, education_entry.location = loc,
          education_entry.description = descr\<rparr>]\<rparr>"

definition add_experience ::
  "string \<Rightarrow> string \<Rightarrow> string option \<Rightarrow> string option \<Rightarrow> string option \<Rightarrow> string option \<Rightarrow>
   string list \<Rightarrow> resume \<Rightarrow> resume" where
  "add_experience cmpny ttl sd ed loc descr resps r =
     r\<lparr>experience := experience r @
        [\<lparr>company = cmpny, title = ttl, experience_entry.start_date = sd,
          experience_entry.end_date = ed, experience_entry.location = loc,
          experience_entry.description = descr, responsibilities = resps\<rparr>]\<rparr>"

definition add_recommendation :: "string \<Rightarrow> resume \<Rightarrow> resume" where
  "add_recommendation rec r =
     (if rec \<noteq> [] \<and> rec \<notin> set (recommendations r)
      then r\<lparr>recommendations := recommendations r @ [rec]\<rparr> else r)"

section \<open>Helpers shared by the analyzers\<close>

text \<open>
  The three section finders (\<open>extract_summary\<close>, \<open>_extract_skills_section\<close>,
  \<open>_extract_section\<close>) run the same loop over the enumerated lines: a header line sets
  the start to the next index; once a start is set, the first line that ends the
  section sets the end and stops the loop. \<open>scan_lines\<close> returns the start and the end,
  \<open>None\<close> for the value \<open>-1\<close> of the source.
\<close>

fun scan_lines ::
  "(string \<Rightarrow> bool) \<Rightarrow> (string \<Rightarrow> bool) \<Rightarrow> nat \<Rightarrow> nat option \<Rightarrow> string list \<Rightarrow> nat option \<times> nat option"
where
  "scan_lines hdr fin i start [] = (start, None)"
| "scan_lines hdr fin i start (l # ls) =
     (if hdr l then scan_lines hdr fin (i + 1) (Some (i + 1)) ls
      else if start \<noteq> None \<and> fin l then (start, Some i)
      else scan_lines hdr fin (i + 1) start ls)"

text \<open>\<open>any(header == line_lower or header in line_lower for header in headers)\<close> with
  \<open>line_lower = line.lower().strip()\<close>.\<close>

definition is_header :: "string list \<Rightarrow> string \<Rightarrow> bool" where
  "is_header headers line =
     (let line_lower = strip (lower line)
      in list_ex (\<lambda>h. h = line_lower \<or> contains h line_lower) headers)"

text \<open>\<open>line and line[0].isupper() and line[-1] == ':'\<close>\<close>

definition capital_colon :: "string \<Rightarrow> bool" where
  "capital_colon line = (line \<noteq> [] \<and> is_upper (hd line) \<and> last line = CHR '':'')"

text \<open>\<open>re.sub(r'\s+', ' ', s)\<close>\<close>

function collapse_ws :: "string \<Rightarrow> string" where
  "collapse_ws [] = []"
| "collapse_ws (c # cs) =
     (if is_space c then CHR '' '' # collapse_ws (dropWhile is_space cs) else c # collapse_ws cs)"
  by pat_completeness auto
termination
  by (relation "measure length") (auto simp: length_dropWhile_le less_Suc_eq_le)

text \<open>The first pattern, in the order of the list, that occurs in the text, and its
  first match.\<close>

fun first_search :: "regex list \<Rightarrow> string \<Rightarrow> string option" where
  "first_search [] s = None"
| "first_search (p # ps) s = (case re_search p s of Some m \<Rightarrow> Some m | None \<Rightarrow> first_search ps s)"

section \<open>The content analyzer (\<open>analyzers/content_analyzer.py\<close>)\<close>

definition name_candidate :: "string \<Rightarrow> bool" where
  "name_candidate l =
     (let line = strip l
      in line \<noteq> [] \<and> length line < 50
         \<and> \<not> list_ex (\<lambda>k. contains k (lower line)) [''resume'', ''cv'', ''curriculum''])"

text \<open>\<open>[a-zA-Z0-9._%+-]+@[a-zA-Z0-9.-]+\.[a-zA-Z]{2,}\<close>\<close>

definition email_pattern :: regex where
  "email_pattern =
     seqs [rplus (Cls (\<lambda>c. is_alpha c \<or> is_digit c \<or> c \<in> set ''._%+-'')),
           chr CHR ''@'',
           rplus (Cls (\<lambda>c. is_alpha c \<or> is_digit c \<or> c \<in> set ''.-'')),
           chr CHR ''.'',
           rep 2 (Cls is_alpha), Star (Cls is_alpha)]"

definition phone_patterns :: "regex list" where
  "phone_patterns =
     [seqs [Bnd, rep 3 digit, ropt (one_of ''-.''), rep 3 digit, ropt (one_of ''-.''),
            rep 4 digit, Bnd],
      seqs [Bnd, chr CHR ''('', rep 3 digit, chr CHR '')'', ropt (one_of ''-. ''), rep 3 digit,
            ropt (one_of ''-.''), rep 4 digit, Bnd],
      seqs [Bnd, chr CHR ''+'', rep_range 1 3 digit, ropt (one_of ''-. ''), rep 3 digit,
            ropt (one_of ''-. ''), rep 3 digit, ropt (one_of ''-. ''), rep 4 digit, Bnd]]"

text \<open>\<open>[\w-]\<close> and \<open>[\w.-]\<close>\<close>

definition word_dash :: regex where
  "word_dash = Cls (\<lambda>c. is_word c \<or> c = CHR ''-'')"

definition word_dot_dash :: regex where
  "word_dot_dash = Cls (\<lambda>c. is_word c \<or> c = CHR ''.'' \<or> c = CHR ''-'')"

text \<open>Searched with \<open>re.IGNORECASE\<close>.\<close>

definition linkedin_patterns :: "regex list" where
  "linkedin_patterns =
     [seqs [lit_ci ''linkedin'', chr CHR ''.'', lit_ci ''com/in/'', rplus word_dash],
      seqs [lit_ci ''linkedin'', chr CHR ''.'', lit_ci ''com/profile/'', rplus word_dash]]"

definition website_patterns :: "regex list" where
  "website_patterns =
     [seqs [lit ''http'', ropt (chr CHR ''s''), lit ''://'', ropt (lit ''www.''),
            rplus word_dash, chr CHR ''.'', rplus word_dot_dash,
            Star (Seq (chr CHR ''/'') (Star word_dot_dash)), ropt (chr CHR ''/'')],
      seqs [lit ''www.'', rplus word_dash, chr CHR ''.'', rplus word_dot_dash,
            Star (Seq (chr CHR ''/'') (Star word_dot_dash)), ropt (chr CHR ''/'')]]"

definition job_sites :: "string list" where
  "job_sites = [''linkedin'', ''indeed'', ''monster'', ''careerbuilder'', ''glassdoor'']"

text \<open>The loop over \<open>website_patterns\<close>: it stops at the first pattern that has a match
  left after the filter.\<close>

fun first_website :: "regex list \<Rightarrow> string \<Rightarrow> string option" where
  "first_website [] s = None"
| "first_website (p # ps) s =
     (case filter (\<lambda>w. \<not> list_ex (\<lambda>site. contains site (lower w)) job_sites) (re_findall p s) of
        w # _ \<Rightarrow> Some w
      | [] \<Rightarrow> first_website ps s)"

text \<open>\<open>[A-Z][a-z]+(?:\s[A-Z][a-z]+)*\<close>\<close>

definition capitalized :: regex where
  "capitalized = Seq upper (rplus lowerc)"

definition contact_location_patterns :: "regex list" where
  "contact_location_patterns =
     [seqs [Bnd, capitalized, Star (Seq space capitalized), chr CHR '','', space, rep 2 upper, Bnd],
      seqs [Bnd, capitalized, Star (Seq space capitalized), space, rep 5 digit, Bnd]]"

text \<open>An attribute is assigned only where the source assigns it.\<close>

definition set_if_found :: "'a option \<Rightarrow> 'a option \<Rightarrow> 'a option" where
  "set_if_found found old = (case found of Some v \<Rightarrow> Some v | None \<Rightarrow> old)"

definition extract_contact_info :: "resume \<Rightarrow> resume" where
  "extract_contact_info r =
     (let s = raw_text r;
          lines = split [newline] s
      in r\<lparr>name := set_if_found (map_option strip (find name_candidate (take 5 lines))) (name r),
           email := set_if_found (re_search email_pattern s) (email r),
           phone := set_if_found (first_search phone_patterns s) (phone r),
           linkedin := set_if_found (first_search linkedin_patterns s) (linkedin r),
           website := set_if_found (first_website website_patterns s) (website r),
           resume.location := set_if_found (first_search contact_location_patterns s)
                                (resume.location r)\<rparr>)"

definition summary_headers :: "string list" where
  "summary_headers =
     [''summary'', ''professional summary'', ''profile'', ''professional profile'',
      ''objective'', ''career objective'', ''about me'', ''career summary'']"

definition is_summary_end :: "string \<Rightarrow> bool" where
  "is_summary_end line =
     (capital_colon line \<or>
      strip (lower line) \<in> set [''skills'', ''experience'', ''education'', ''work experience'', ''employment'',
                   ''projects'', ''certifications''])"

definition extract_summary :: "resume \<Rightarrow> resume" where
  "extract_summary r =
     (let lines = split [newline] (raw_text r)
      in case scan_lines (is_header summary_headers) is_summary_end 0 None lines of
           (None, _) \<Rightarrow> r
         | (Some summary_start, fin) \<Rightarrow>
             (let summary_end = (case fin of Some e \<Rightarrow> e
                                 | None \<Rightarrow> min (summary_start + 5) (length lines));
                  summary_lines = slice summary_start summary_end lines;
                  summary_text = strip (collapse_ws
                     (join '' '' (map strip (filter (\<lambda>l. strip l \<noteq> []) summary_lines))))
              in if summary_text \<noteq> [] then r\<lparr>summary := Some summary_text\<rparr> else r))"

text \<open>\<open>content_analyzer.analyze\<close>\<close>

definition content_analyze :: "resume \<Rightarrow> resume" where
  "content_analyze r = extract_summary (extract_contact_info r)"

section \<open>The skills analyzer (\<open>analyzers/skills_analyzer.py\<close>)\<close>

text \<open>
  \<open>_load_skills_data\<close> returns the content of \<open>data/skills.json\<close> when that file can be
  read and \<open>DEFAULT_SKILLS\<close> otherwise; the dictionary is a parameter, given as the list
  of its items.
\<close>

type_synonym skills_data = "(string \<times> string list) list"

text \<open>\<open>re.search(r'\b' + re.escape(skill.lower()) + r'\b', text)\<close>\<close>

definition skill_in_text :: "string \<Rightarrow> string \<Rightarrow> bool" where
  "skill_in_text skill s = re_found (seqs [Bnd, lit (lower skill), Bnd]) s"

definition skills_headers :: "string list" where
  "skills_headers =
     [''skills'', ''technical skills'', ''core skills'', ''key skills'', ''professional skills'',
      ''competencies'', ''areas of expertise'']"

definition is_skills_end :: "string \<Rightarrow> bool" where
  "is_skills_end line =
     (capital_colon line \<or>
      strip (lower line) \<in> set [''experience'', ''education'', ''work experience'', ''employment'', ''projects'',
                   ''certifications''])"

definition extract_skills_section :: "string \<Rightarrow> string option" where
  "extract_skills_section s =
     (let lines = split [newline] s
      in case scan_lines (is_header skills_headers) is_skills_end 0 None lines of
           (None, _) \<Rightarrow> None
         | (Some skills_start, fin) \<Rightarrow>
             (let skills_end = (case fin of Some e \<Rightarrow> e
                                | None \<Rightarrow> min (skills_start + 10) (length lines));
                  skills_lines = slice skills_start skills_end lines
              in Some (strip (collapse_ws
                   (join '' '' (map strip (filter (\<lambda>l. strip l \<noteq> []) skills_lines)))))))"

text \<open>The skills of the skills section: it is split at the first delimiter of the list
  that occurs in it, and at no delimiter when none occurs.\<close>

fun section_skills :: "string list \<Rightarrow> string \<Rightarrow> string list" where
  "section_skills [] sec = []"
| "section_skills (d # ds) sec =
     (if contains d sec
      then filter (\<lambda>skill. 2 \<le> length skill \<and> length skill \<le> 50)
             (map strip (filter (\<lambda>x. strip x \<noteq> []) (split d sec)))
      else section_skills ds sec)"

text \<open>
  \<open>found_skills\<close> is a Python set; here it is the list of the additions, and
  \<open>sorted(list(found_skills))\<close> sorts that list without its duplicates (the result
  does not depend on the order in which a set is iterated).
\<close>

definition found_skills :: "skills_data \<Rightarrow> string \<Rightarrow> string list" where
  "found_skills sd s =
     concat (map (\<lambda>(category, sks). filter (\<lambda>skill. skill_in_text skill (lower s)) sks) sd)
     @ (case extract_skills_section s of
          None \<Rightarrow> []
        | Some sec \<Rightarrow>
            if sec \<noteq> [] then section_skills ['','', bullet, middle_dot, [newline], '';''] sec
            else [])"

definition extract_skills :: "skills_data \<Rightarrow> resume \<Rightarrow> resume" where
  "extract_skills sd r = r\<lparr>skills := sort (remdups (found_skills sd (raw_text r)))\<rparr>"

text \<open>The categories of \<open>score_skills\<close>: name, weight, keywords.\<close>

definition skill_categories :: "(string \<times> rat \<times> string list) list" where
  "skill_categories =
     [(''technical'', 6 / 10,
         [''programming'', ''language'', ''framework'', ''library'', ''database'', ''cloud'',
          ''devops'', ''version control'', ''testing'', ''security'']),
      (''soft'', 2 / 10,
         [''communication'', ''teamwork'', ''problem solving'', ''critical thinking'',
          ''time management'', ''leadership'', ''adaptability'', ''creativity'']),
      (''domain'', 2 / 10,
         [''industry'', ''domain'', ''sector'', ''field'', ''business'', ''finance'', ''healthcare'',
          ''education'', ''retail'', ''manufacturing'', ''technology''])]"

definition weighted_category_score :: "string list \<Rightarrow> rat \<times> string list \<Rightarrow> rat" where
  "weighted_category_score sks info =
     (let category_score = of_nat (length (filter
             (\<lambda>skill. list_ex (\<lambda>keyword. contains keyword (lower skill)) (snd info)) sks));
          normalized_score = min 10 (category_score / 10 * 10)
      in normalized_score * fst info)"

text \<open>\<open>category_scores[c]\<close> for a key that the dictionary has.\<close>

definition score_of :: "string \<Rightarrow> (string \<times> rat) list \<Rightarrow> rat" where
  "score_of c scores = (case map_of scores c of Some v \<Rightarrow> v | None \<Rightarrow> 0)"

definition sa_score_skills :: "resume \<Rightarrow> resume" where
  "sa_score_skills r =
     (let category_scores = map (\<lambda>(c, info). (c, weighted_category_score (skills r) info)) skill_categories;
          overall_skill_score = sum_list (map snd category_scores);
          r1 = r\<lparr>skill_scores := category_scores\<rparr>;
          r2 = (if overall_skill_score < 3
                then add_recommendation
                  ''Consider adding more specific skills to your resume, especially technical skills.'' r1
                else if overall_skill_score < 6
                then add_recommendation
                  ''Your skills section is good, but could be improved by adding more specialized skills relevant to your target role.'' r1
                else r1)
      in if score_of ''technical'' category_scores > 3 * score_of ''soft'' category_scores
         then add_recommendation
           ''Consider adding more soft skills to balance your technical expertise.'' r2
         else if score_of ''soft'' category_scores > 3 * score_of ''technical'' category_scores
         then add_recommendation
           ''Consider adding more technical skills to complement your soft skills.'' r2
         else r2)"

text \<open>\<open>skills_analyzer.analyze\<close>, the loaded skills data given.\<close>

definition skills_analyze :: "skills_data \<Rightarrow> resume \<Rightarrow> resume" where
  "skills_analyze sd r = sa_score_skills (extract_skills sd r)"

section \<open>The experience analyzer (\<open>analyzers/experience_analyzer.py\<close>)\<close>

text \<open>
  The source has no \<open>raise\<close>; what can raise is an index into a list that is too short
  (\<open>parts[1]\<close>, \<open>lines[0]\<close>). Each such access is a branch that returns \<open>IndexError\<close>.
\<close>

datatype py_error = IndexError

definition experience_headers :: "string list" where
  "experience_headers =
     [''experience'', ''work experience'', ''employment history'', ''professional experience'',
      ''career history'', ''work history'']"

definition education_headers :: "string list" where
  "education_headers =
     [''education'', ''academic background'', ''educational background'', ''academic history'',
      ''educational history'', ''academic qualifications'', ''educational qualifications'']"

definition is_section_end :: "string \<Rightarrow> bool" where
  "is_section_end line =
     ((line \<noteq> [] \<and> is_upper (hd line) \<and> (last line = CHR '':'' \<or> isupper line)) \<or>
      strip (lower line) \<in> set [''skills'', ''education'', ''experience'', ''projects'', ''certifications'',
                   ''summary'', ''objective'', ''profile''])"

definition extract_section :: "string \<Rightarrow> string list \<Rightarrow> string option" where
  "extract_section s section_headers =
     (let lines = split [newline] s
      in case scan_lines (is_header section_headers) is_section_end 0 None lines of
           (None, _) \<Rightarrow> None
         | (Some section_start, fin) \<Rightarrow>
             (let section_end = (case fin of Some e \<Rightarrow> e | None \<Rightarrow> length lines);
                  section_lines = slice section_start section_end lines
              in Some (join [newline] (filter (\<lambda>line. strip line \<noteq> []) section_lines))))"

text \<open>\<open>\d{4}|\d{2}/\d{2}|\d{2}-\d{2}|[A-Z][a-z]+\s[A-Z][a-z]+\<close>\<close>

definition entry_start :: regex where
  "entry_start =
     alts [rep 4 digit,
           seqs [rep 2 digit, chr CHR ''/'', rep 2 digit],
           seqs [rep 2 digit, chr CHR ''-'', rep 2 digit],
           seqs [capitalized, space, capitalized]]"

text \<open>The loop of the second rule: the entries closed so far and the lines of the open
  entry.\<close>

fun split_by_starts :: "string list \<Rightarrow> string list \<Rightarrow> string list \<Rightarrow> string list" where
  "split_by_starts entries current_entry [] =
     (if current_entry \<noteq> [] then entries @ [join [newline] current_entry] else entries)"
| "split_by_starts entries current_entry (line # lines) =
     (if re_match entry_start (strip line) \<and> current_entry \<noteq> []
      then split_by_starts (entries @ [join [newline] current_entry]) [line] lines
      else split_by_starts entries (current_entry @ [line]) lines)"

definition split_section_into_entries :: "string \<Rightarrow> string list" where
  "split_section_into_entries section_text =
     (let entries1 = (if contains [newline, newline] section_text
                      then map strip (filter (\<lambda>entry. strip entry \<noteq> [])
                                       (split [newline, newline] section_text))
                      else []);
          entries2 = (if entries1 = [] then split_by_starts [] [] (split [newline] section_text)
                      else entries1)
      in if entries2 = [] then [section_text] else entries2)"

text \<open>\<open>re.split(r'\s+at\s+', line, flags=re.IGNORECASE, maxsplit=1)\<close>: the text before and
  after the first match, \<open>None\<close> when there is no match (a one-element list in Python).\<close>

definition at_word :: regex where
  "at_word = seqs [rplus space, lit_ci ''at'', rplus space]"

definition split_at_word :: "string \<Rightarrow> (string \<times> string) option" where
  "split_at_word line =
     (case search_parts_from [at_word] [] line of
        Some [p, q] \<Rightarrow> Some (rev (fst p), snd q)
      | _ \<Rightarrow> None)"

text \<open>
  One round of the loop over the first three lines in \<open>_extract_company_title\<close> and
  \<open>_extract_institution_degree\<close> (the two functions are the same text, with company and
  institution in one role and title and degree in the other): \<open>None\<close> when no pattern
  applies to the line, otherwise the pair (company, title) and the \<open>break\<close>.
\<close>

definition fields_of_line :: "string \<Rightarrow> (py_error + string \<times> string) option" where
  "fields_of_line l =
     (let line = strip l
      in if contains '' - '' line then
           Some (case split1 '' - '' line of
                   Some (a, b) \<Rightarrow> Inr (strip a, strip b) | None \<Rightarrow> Inl IndexError)
         else if contains '' at '' (lower line) then
           Some (case split_at_word line of
                   Some (a, b) \<Rightarrow> Inr (strip b, strip a) | None \<Rightarrow> Inl IndexError)
         else if contains '','' line then
           Some (case split1 '','' line of
                   Some (a, b) \<Rightarrow> Inr (strip b, strip a) | None \<Rightarrow> Inl IndexError)
         else None)"

fun first_fields :: "string list \<Rightarrow> py_error + string \<times> string" where
  "first_fields [] = Inr ([], [])"
| "first_fields (l # ls) = (case fields_of_line l of Some res \<Rightarrow> res | None \<Rightarrow> first_fields ls)"

text \<open>The heuristics after the loop.\<close>

definition fill_fields :: "string list \<Rightarrow> string \<times> string \<Rightarrow> py_error + string \<times> string" where
  "fill_fields lines ct =
     (case ct of (company', title') \<Rightarrow>
        if company' = [] \<or> title' = [] then
          (case lines of
             [] \<Rightarrow> Inl IndexError
           | l0 # rest \<Rightarrow>
               (let first_line = strip l0
                in if company' = [] \<and> title' = [] then Inr (first_line, title')
                   else if company' = [] then
                     (if length lines > 1 then Inr (strip (lines ! 1), title') else Inr (company', title'))
                   else
                     (if length lines > 1 then Inr (company', strip (lines ! 1)) else Inr (company', title'))))
        else Inr (company', title'))"

definition extract_company_title :: "string \<Rightarrow> py_error + string \<times> string" where
  "extract_company_title entry =
     (let lines = split [newline] entry
      in case first_fields (take 3 lines) of
           Inl e \<Rightarrow> Inl e
         | Inr ct \<Rightarrow> fill_fields lines ct)"

definition present_tokens :: "string list" where
  "present_tokens = [''Present'', ''Current'', ''Now'']"

text \<open>\<open>\s*-\s*\<close> and \<open>[A-Z][a-z]+\s+\d{4}\<close>\<close>

definition dash_sep :: regex where
  "dash_sep = seqs [Star space, chr CHR ''-'', Star space]"

definition month_year :: regex where
  "month_year = seqs [capitalized, rplus space, rep 4 digit]"

text \<open>A date pattern \<open>(start)\s*-\s*(start|Present|Current|Now)\<close>, as its three factors.\<close>

definition date_range :: "regex \<Rightarrow> regex list" where
  "date_range d = [d, dash_sep, alts (d # map lit present_tokens)]"

definition date_patterns :: "regex list list" where
  "date_patterns =
     [date_range (seqs [rep_range 1 2 digit, chr CHR ''/'', rep 4 digit]),
      date_range (seqs [rep_range 1 2 digit, chr CHR ''-'', rep 4 digit]),
      date_range (rep 4 digit),
      date_range month_year,
      date_range month_year]"

fun extract_dates_from :: "regex list list \<Rightarrow> string \<Rightarrow> string option \<times> string option" where
  "extract_dates_from [] entry = (None, None)"
| "extract_dates_from (pattern # patterns) entry =
     (case re_search_parts pattern entry of
        Some [start_date', sep, end_date'] \<Rightarrow>
          (Some start_date',
           Some (if end_date' \<in> set present_tokens then ''Present'' else end_date'))
      | _ \<Rightarrow> extract_dates_from patterns entry)"

definition extract_dates :: "string \<Rightarrow> string option \<times> string option" where
  "extract_dates entry = extract_dates_from date_patterns entry"

text \<open>\<open>[A-Z][a-z]+(?:\s+[A-Z][a-z]+)*\<close> and \<open>,\s+\<close>\<close>

definition place :: regex where
  "place = Seq capitalized (Star (Seq (rplus space) capitalized))"

definition comma_sep :: regex where
  "comma_sep = Seq (chr CHR '','') (rplus space)"

text \<open>The location patterns with the indices of their two groups among the factors.\<close>

definition location_patterns :: "(regex list \<times> nat \<times> nat) list" where
  "location_patterns =
     [([place, comma_sep, rep 2 upper], 0, 2),
      ([place, comma_sep, place], 0, 2),
      ([Seq (lit ''Location:'') (rplus space), place, comma_sep, Alt (rep 2 upper) place], 1, 3)]"

fun extract_location_from :: "(regex list \<times> nat \<times> nat) list \<Rightarrow> string \<Rightarrow> string option" where
  "extract_location_from [] entry = None"
| "extract_location_from ((pattern, i, j) # patterns) entry =
     (case re_search_parts pattern entry of
        Some gs \<Rightarrow> Some (gs ! i @ '', '' @ gs ! j)
      | None \<Rightarrow> extract_location_from patterns entry)"

definition extract_location :: "string \<Rightarrow> string option" where
  "extract_location entry = extract_location_from location_patterns entry"

text \<open>\<open>line.startswith(bullet) or line.startswith('-') or line.startswith('*') or
  re.match(r'^\d+\.', line)\<close>\<close>

definition is_list_item :: "string \<Rightarrow> bool" where
  "is_list_item line =
     (startswith line bullet \<or> startswith line ''-'' \<or> startswith line ''*''
      \<or> re_match (Seq (rplus digit) (chr CHR ''.'')) line)"

text \<open>\<open>re.sub(r'^[bullet\-*]\s*|^\d+\.\s*', '', line)\<close>: both alternatives are anchored at
  the start of the string, so at most the match at the start is removed.\<close>

definition strip_marker :: "string \<Rightarrow> string" where
  "strip_marker line =
     (case rmatch (Alt (Seq (alts [lit bullet, chr CHR ''-'', chr CHR ''*'']) (Star space))
                       (seqs [rplus digit, chr CHR ''.'', Star space])) ([], line) of
        q # _ \<Rightarrow> snd q
      | [] \<Rightarrow> line)"

definition extract_description_responsibilities :: "string \<Rightarrow> string option \<times> string list" where
  "extract_description_responsibilities entry =
     (let lines = split [newline] entry;
          start_idx = min 3 (length lines);
          body = map strip (drop start_idx lines);
          responsibilities' = filter (\<lambda>x. x \<noteq> [])
                               (map (\<lambda>line. strip (strip_marker line)) (filter is_list_item body));
          description_lines = filter (\<lambda>line. \<not> is_list_item line \<and> line \<noteq> []) body
      in (if description_lines \<noteq> [] then Some (join '' '' description_lines) else None,
          responsibilities'))"

definition degree_keywords :: "string list" where
  "degree_keywords =
     [''Bachelor'', ''Master'', ''PhD'', ''Doctorate'', ''Associate'', ''BS'', ''BA'', ''MS'', ''MA'',
      ''BSc'', ''MSc'', ''BBA'', ''MBA'', ''B.S.'', ''M.S.'', ''B.A.'', ''M.A.'', ''Ph.D.'', ''B.Tech'',
      ''M.Tech'', ''B.E.'', ''M.E.'', ''Certificate'', ''Diploma'']"

text \<open>The scan for a degree keyword: the first line that holds a keyword and is not
  blank, stripped.\<close>

fun degree_from_keywords :: "string list \<Rightarrow> string" where
  "degree_from_keywords [] = []"
| "degree_from_keywords (line # lines) =
     (if list_ex (\<lambda>keyword. contains keyword line) degree_keywords \<and> strip line \<noteq> []
      then strip line else degree_from_keywords lines)"

definition extract_institution_degree :: "string \<Rightarrow> py_error + string \<times> string" where
  "extract_institution_degree entry =
     (let lines = split [newline] entry
      in case first_fields (take 3 lines) of
           Inl e \<Rightarrow> Inl e
         | Inr ct \<Rightarrow>
             (case fill_fields lines ct of
                Inl e \<Rightarrow> Inl e
              | Inr (institution', degree') \<Rightarrow>
                  Inr (institution', if degree' = [] then degree_from_keywords lines else degree')))"

text \<open>\<open>in\s+([A-Za-z\s]+)\<close> and \<open>of\s+([A-Za-z\s]+)\<close>, as factors.\<close>

definition field_patterns :: "regex list list" where
  "field_patterns =
     [[Seq (lit ''in'') (rplus space), rplus (Cls (\<lambda>c. is_alpha c \<or> is_space c))],
      [Seq (lit ''of'') (rplus space), rplus (Cls (\<lambda>c. is_alpha c \<or> is_space c))]]"

fun field_in_degree :: "regex list list \<Rightarrow> string \<Rightarrow> string option" where
  "field_in_degree [] deg = None"
| "field_in_degree (pattern # patterns) deg =
     (case re_search_parts pattern deg of
        Some gs \<Rightarrow> Some (strip (gs ! 1))
      | None \<Rightarrow> field_in_degree patterns deg)"

definition field_indicators :: "string list" where
  "field_indicators = [''Major:'', ''Field:'', ''Concentration:'', ''Specialization:'']"

fun field_of_indicators :: "string list \<Rightarrow> string \<Rightarrow> (py_error + string) option" where
  "field_of_indicators [] line = None"
| "field_of_indicators (indicator # indicators) line =
     (if contains indicator line then
        Some (case split1 indicator line of
                Some (a, b) \<Rightarrow> Inr (strip b) | None \<Rightarrow> Inl IndexError)
      else field_of_indicators indicators line)"

fun field_of_lines :: "string list \<Rightarrow> py_error + string option" where
  "field_of_lines [] = Inr None"
| "field_of_lines (l # ls) =
     (case field_of_indicators field_indicators (strip l) of
        Some (Inl e) \<Rightarrow> Inl e
      | Some (Inr f) \<Rightarrow> Inr (Some f)
      | None \<Rightarrow> field_of_lines ls)"

definition extract_field_of_study :: "string \<Rightarrow> string \<Rightarrow> py_error + string option" where
  "extract_field_of_study entry deg =
     (case field_in_degree field_patterns deg of
        Some f \<Rightarrow> Inr (Some f)
      | None \<Rightarrow>
          (let lines = split [newline] entry;
               start_idx = min 3 (length lines)
           in field_of_lines (drop start_idx lines)))"

text \<open>\<open>float(s)\<close> for a string of the form \<open>\d+\.\d+\<close>, as the exact decimal.\<close>

definition digits_value :: "string \<Rightarrow> nat" where
  "digits_value ds = foldl (\<lambda>n c. 10 * n + (of_char c - 48)) 0 ds"

definition float_of :: "string \<Rightarrow> rat" where
  "float_of s =
     (let int_part = takeWhile is_digit s;
          frac_part = drop (length int_part + 1) s
      in of_nat (digits_value int_part) + of_nat (digits_value frac_part) / 10 ^ length frac_part)"

definition decimal :: regex where
  "decimal = seqs [rplus digit, chr CHR ''.'', rplus digit]"

text \<open>The GPA patterns with the index of the group among the factors.\<close>

definition gpa_patterns :: "(regex list \<times> nat) list" where
  "gpa_patterns =
     [([Seq (lit ''GPA:'') (Star space), decimal], 1),
      ([seqs [lit ''GPA'', rplus space, lit ''of'', rplus space], decimal], 1),
      ([decimal, Seq (rplus space) (lit ''GPA'')], 0)]"

fun extract_gpa_from :: "(regex list \<times> nat) list \<Rightarrow> string \<Rightarrow> rat option" where
  "extract_gpa_from [] entry = None"
| "extract_gpa_from ((pattern, i) # patterns) entry =
     (case re_search_parts pattern entry of
        Some gs \<Rightarrow> Some (float_of (gs ! i))
      | None \<Rightarrow> extract_gpa_from patterns entry)"

definition extract_gpa :: "string \<Rightarrow> rat option" where
  "extract_gpa entry = extract_gpa_from gpa_patterns entry"

definition extract_education_description :: "string \<Rightarrow> string option" where
  "extract_education_description entry =
     (let lines = split [newline] entry;
          start_idx = min 3 (length lines);
          body = map strip (drop start_idx lines);
          description_lines = filter
            (\<lambda>line. \<not> list_ex (\<lambda>indicator. contains indicator line)
                        [''GPA:'', ''Major:'', ''Field:'', ''Concentration:'', ''Specialization:'']
                    \<and> \<not> is_list_item line \<and> line \<noteq> []) body
      in if description_lines \<noteq> [] then Some (join '' '' description_lines) else None)"

text \<open>The body of the loop over the entries in \<open>extract_experience\<close>.\<close>

definition add_experience_entry :: "string \<Rightarrow> resume \<Rightarrow> py_error + resume" where
  "add_experience_entry entry r =
     (case extract_company_title entry of
        Inl e \<Rightarrow> Inl e
      | Inr (company', title') \<Rightarrow>
          if company' = [] then Inr r
          else
            (case extract_dates entry of (start_date', end_date') \<Rightarrow>
             case extract_description_responsibilities entry of (description', responsibilities') \<Rightarrow>
               Inr (add_experience company' title' start_date' end_date' (extract_location entry)
                      description' responsibilities' r)))"

definition add_education_entry :: "string \<Rightarrow> resume \<Rightarrow> py_error + resume" where
  "add_education_entry entry r =
     (case extract_institution_degree entry of
        Inl e \<Rightarrow> Inl e
      | Inr (institution', degree') \<Rightarrow>
          if institution' = [] then Inr r
          else
            (case extract_field_of_study entry degree' of
               Inl e \<Rightarrow> Inl e
             | Inr field' \<Rightarrow>
                 (case extract_dates entry of (start_date', end_date') \<Rightarrow>
                    Inr (add_education institution' degree' field' start_date' end_date'
                           (extract_gpa entry) (extract_location entry)
                           (extract_education_description entry) r))))"

text \<open>A loop over the entries that stops at the first exception.\<close>

fun for_entries :: "(string \<Rightarrow> resume \<Rightarrow> py_error + resume) \<Rightarrow> string list \<Rightarrow> resume \<Rightarrow> py_error + resume"
where
  "for_entries body [] r = Inr r"
| "for_entries body (entry # entries) r =
     (case body entry r of Inl e \<Rightarrow> Inl e | Inr r' \<Rightarrow> for_entries body entries r')"

definition extract_experience :: "resume \<Rightarrow> py_error + resume" where
  "extract_experience r =
     (case extract_section (raw_text r) experience_headers of
        None \<Rightarrow> Inr r
      | Some experience_section \<Rightarrow>
          if experience_section = [] then Inr r
          else for_entries add_experience_entry (split_section_into_entries experience_section) r)"

definition extract_education :: "resume \<Rightarrow> py_error + resume" where
  "extract_education r =
     (case extract_section (raw_text r) education_headers of
        None \<Rightarrow> Inr r
      | Some education_section \<Rightarrow>
          if education_section = [] then Inr r
          else for_entries add_education_entry (split_section_into_entries education_section) r)"

definition longer_than :: "nat \<Rightarrow> string option \<Rightarrow> bool" where
  "longer_than n v = (case v of None \<Rightarrow> False | Some s \<Rightarrow> s \<noteq> [] \<and> length s > n)"

text \<open>Truthiness of an optional float (\<open>None\<close> and \<open>0.0\<close> are falsy).\<close>

definition truthy_num :: "rat option \<Rightarrow> bool" where
  "truthy_num v = (case v of None \<Rightarrow> False | Some x \<Rightarrow> x \<noteq> 0)"

definition experience_quality :: "experience_entry \<Rightarrow> rat" where
  "experience_quality e =
     (if responsibilities e \<noteq> []
      then (1 / 2) * min 1 (of_nat (length (responsibilities e)) / 3) else 0)
     + (if longer_than 50 (experience_entry.description e) then 1 / 2 else 0)
     + (if truthy (experience_entry.start_date e) \<and> truthy (experience_entry.end_date e)
        then 1 / 2 else 0)
     + (if truthy (experience_entry.location e) then 1 / 4 else 0)"

definition ea_score_experience :: "resume \<Rightarrow> rat" where
  "ea_score_experience r =
     (if experience r = [] then 0
      else
        let base_score = min 5 (of_nat (length (experience r)));
            quality_score = min 5 (sum_list (map experience_quality (experience r)))
        in base_score + quality_score)"

definition education_quality :: "education_entry \<Rightarrow> rat" where
  "education_quality e =
     (if degree e \<noteq> [] then 1 else 0)
     + (if truthy (field e) then 1 else 0)
     + (if truthy (education_entry.start_date e) \<and> truthy (education_entry.end_date e)
        then 1 / 2 else 0)
     + (if truthy_num (gpa e) then 1 else 0)
     + (if truthy (education_entry.description e) then 1 / 2 else 0)"

definition ea_score_education :: "resume \<Rightarrow> rat" where
  "ea_score_education r =
     (if education r = [] then 0
      else
        let base_score = min 5 (of_nat (length (education r)) * (5 / 2));
            quality_score = min 5 (sum_list (map education_quality (education r)))
        in base_score + quality_score)"

definition experience_recommendations :: "experience_entry \<Rightarrow> resume \<Rightarrow> resume" where
  "experience_recommendations e r =
     (let r1 = (if responsibilities e = [] then
                  add_recommendation
                    (''Add bullet points describing your responsibilities and achievements at ''
                     @ company e @ ''.'') r
                else if length (responsibilities e) < 3 then
                  add_recommendation
                    (''Add more bullet points for your role at '' @ company e
                     @ '' to highlight your achievements.'') r
                else r)
      in if \<not> truthy (experience_entry.start_date e) \<or> \<not> truthy (experience_entry.end_date e)
         then add_recommendation
                (''Add specific dates for your position at '' @ company e @ ''.'') r1
         else r1)"

definition education_recommendations :: "education_entry \<Rightarrow> resume \<Rightarrow> resume" where
  "education_recommendations e r =
     (let r1 = (if \<not> truthy (field e) then
                  add_recommendation
                    (''Specify your field of study at '' @ institution e @ ''.'') r
                else r);
          r2 = (if \<not> truthy (education_entry.start_date e) \<or> \<not> truthy (education_entry.end_date e)
                then add_recommendation
                       (''Add specific dates for your education at '' @ institution e @ ''.'') r1
                else r1)
      in if \<not> truthy_num (gpa e) \<and> degree e \<noteq> []
            \<and> list_ex (\<lambda>keyword. contains keyword (degree e)) [''Bachelor'', ''Master'', ''PhD'']
         then add_recommendation
                (''Consider adding your GPA for your '' @ degree e @ '' if it'' @ [CHR 0x27]
                 @ ''s above 3.0.'') r2
         else r2)"

definition add_experience_education_recommendations :: "resume \<Rightarrow> resume" where
  "add_experience_education_recommendations r =
     (let r1 = (if experience r = [] then
                  add_recommendation
                    (''Add work experience to your resume, even if it'' @ [CHR 0x27]
                     @ ''s internships or volunteer work.'') r
                else if length (experience r) < 2 then
                  add_recommendation
                    ''Consider adding more work experiences to demonstrate your career progression.'' r
                else r);
          r2 = fold experience_recommendations (experience r) r1;
          r3 = (if education r = [] then
                  add_recommendation ''Add your educational background to your resume.'' r2
                else r2);
          r4 = fold education_recommendations (education r) r3
      in if overall_score r < 5 then
           add_recommendation
             ''Your resume needs significant improvement. Focus on adding more detailed work experiences and skills.'' r4
         else if overall_score r < 7 then
           add_recommendation
             ''Your resume is good but could be improved. Consider adding more specific achievements and quantifiable results.'' r4
         else
           add_recommendation
             ''Your resume is strong. Consider tailoring it further for specific job applications.'' r4)"

definition score_experience_education :: "resume \<Rightarrow> resume" where
  "score_experience_education r =
     (let experience_score' = ea_score_experience r;
          education_score' = ea_score_education r
      in add_experience_education_recommendations
           (r\<lparr>experience_score := experience_score',
              education_score := education_score',
              overall_score := (5 / 10) * experience_score' + (3 / 10) * education_score'
                               + (2 / 10) * sum_list (map snd (skill_scores r))\<rparr>))"

text \<open>\<open>experience_analyzer.analyze\<close>\<close>

definition experience_analyze :: "resume \<Rightarrow> py_error + resume" where
  "experience_analyze r =
     (case extract_experience r of
        Inl e \<Rightarrow> Inl e
      | Inr r1 \<Rightarrow>
          (case extract_education r1 of
             Inl e \<Rightarrow> Inl e
           | Inr r2 \<Rightarrow> Inr (score_experience_education r2)))"

section \<open>The entry point (\<open>main.py\<close>)\<close>

text \<open>
  \<open>analyze_resume\<close> between the parser and the writers: the text is what the parser
  returned, and the result is the resume that the writers serialise. \<open>Inl\<close> is an
  exception that leaves \<open>analyze_resume\<close>.
\<close>

definition analyze_resume :: "skills_data \<Rightarrow> string \<Rightarrow> string \<Rightarrow> py_error + resume" where
  "analyze_resume sd resume_text fname =
     experience_analyze (skills_analyze sd (content_analyze (Resume resume_text fname)))"

section \<open>Text statistics (\<open>utils/text_utils.py\<close>)\<close>

text \<open>
  \<open>calculate_text_stats\<close>: of the dictionary it returns, the callers read
  \<open>word_count\<close> and \<open>lexical_diversity\<close> only. The words are
  \<open>re.findall(r'\b\w+\b', text)\<close>.
\<close>

definition word_re :: regex where
  "word_re = seqs [Bnd, rplus wordc, Bnd]"

definition words_of :: "string \<Rightarrow> string list" where
  "words_of s = re_findall word_re s"

definition word_count :: "string \<Rightarrow> nat" where
  "word_count s = length (words_of s)"

definition lexical_diversity :: "string \<Rightarrow> rat" where
  "lexical_diversity s =
     of_nat (length (remdups (map lower (words_of s)))) / of_nat (max 1 (word_count s))"

section \<open>The ATS analyzer (\<open>analyzers/ats_analyzer.py\<close>)\<close>

definition ats_keywords_technical :: "string list" where
  "ats_keywords_technical =
     [''python'', ''javascript'', ''java'', ''c++'', ''sql'', ''html'', ''css'', ''react'',
      ''angular'', ''vue'', ''node.js'', ''django'', ''flask'', ''spring'', ''aws'', ''azure'',
      ''gcp'', ''docker'', ''kubernetes'', ''git'', ''jenkins'', ''ci/cd'', ''agile'', ''scrum'',
      ''api'', ''rest'', ''graphql'', ''microservices'', ''machine learning'', ''ai'',
      ''data science'', ''analytics'', ''database'', ''postgresql'', ''mongodb'', ''redis'',
      ''elasticsearch'', ''kafka'', ''rabbitmq'', ''terraform'', ''ansible'', ''linux'', ''unix'']"

definition ats_keywords_soft :: "string list" where
  "ats_keywords_soft =
     [''leadership'', ''communication'', ''teamwork'', ''collaboration'', ''problem solving'',
      ''critical thinking'', ''adaptability'', ''time management'', ''project management'',
      ''mentoring'', ''training'', ''presentation'', ''negotiation'', ''customer service'',
      ''analytical'', ''creative'', ''innovative'', ''detail oriented'', ''self motivated'']"

definition ats_keywords_industry :: "string list" where
  "ats_keywords_industry =
     [''fintech'', ''healthcare'', ''e-commerce'', ''saas'', ''startup'', ''enterprise'',
      ''cybersecurity'', ''devops'', ''cloud computing'', ''mobile development'',
      ''web development'', ''full stack'', ''frontend'', ''backend'',
      ''database administration'']"

definition ats_red_flags :: "string list" where
  "ats_red_flags =
     [''objective'', ''references available upon request'', ''hobbies'', ''personal interests'',
      ''marital status'', ''age'', ''date of birth'', ''photo'', ''picture'']"

text \<open>The number of the keywords that occur in the text.\<close>

definition count_in :: "string list \<Rightarrow> string \<Rightarrow> nat" where
  "count_in kws s = length (filter (\<lambda>k. contains k s) kws)"

definition calculate_keyword_score :: "resume \<Rightarrow> rat" where
  "calculate_keyword_score r =
     (if raw_text r = [] then 0
      else
        let text_lower = lower (raw_text r);
            tech_score = min 5 (of_nat (count_in ats_keywords_technical text_lower)
                                 / of_nat (length ats_keywords_technical) * 5);
            soft_score = min 3 (of_nat (count_in ats_keywords_soft text_lower)
                                 / of_nat (length ats_keywords_soft) * 3);
            industry_score = min 2 (of_nat (count_in ats_keywords_industry text_lower)
                                 / of_nat (length ats_keywords_industry) * 2)
        in min 10 (tech_score + soft_score + industry_score))"

text \<open>The three date patterns of \<open>_calculate_format_score\<close>, searched with
  \<open>re.IGNORECASE\<close>.\<close>

definition month_abbrevs :: "string list" where
  "month_abbrevs = [''Jan'', ''Feb'', ''Mar'', ''Apr'', ''May'', ''Jun'', ''Jul'', ''Aug'', ''Sep'',
                    ''Oct'', ''Nov'', ''Dec'']"

definition ats_date_patterns :: "regex list" where
  "ats_date_patterns =
     [seqs [Bnd, rep 4 digit, Bnd],
      seqs [Bnd, alts (map lit_ci month_abbrevs), Star (Cls is_alpha), rplus space,
            rep 4 digit, Bnd],
      seqs [Bnd, rep_range 1 2 digit, chr CHR ''/'', rep 4 digit, Bnd]]"

definition ats_section_headers :: "string list" where
  "ats_section_headers = [''experience'', ''education'', ''skills'', ''summary'', ''objective'']"

definition calculate_format_score :: "resume \<Rightarrow> rat" where
  "calculate_format_score r =
     (let s0 = 2;
          s1 = (if raw_text r \<noteq> [] then
                  (let wc = word_count (raw_text r) in
                   if 300 \<le> wc \<and> wc \<le> 700 then s0 + 3
                   else if 200 \<le> wc \<and> wc < 300 then s0 + 2
                   else if 700 < wc \<and> wc \<le> 1000 then s0 + 2
                   else s0 + 1)
                else s0);
          s2 = s1 + min 3 (of_nat (count_in ats_section_headers (lower (raw_text r)))
                            / of_nat (length ats_section_headers) * 3);
          s3 = (if raw_text r \<noteq> [] then
                  (let s' = (if contains bullet (raw_text r) \<or> contains ''-'' (raw_text r)
                                \<or> contains ''*'' (raw_text r) then s2 + 1 else s2);
                       dates_found = length (filter (\<lambda>p. re_found p (raw_text r)) ats_date_patterns)
                   in if dates_found > 0 then s' + 1 else s')
                else s2)
      in min 10 s3)"

definition calculate_structure_score :: "resume \<Rightarrow> rat" where
  "calculate_structure_score r =
     (let sections_found =
            (if truthy (name r) \<or> truthy (email r) then 1 else 0)
            + (if experience r \<noteq> [] then 1 else 0)
            + (if education r \<noteq> [] then 1 else 0)
            + (if skills r \<noteq> [] then 1 else (0::nat));
          s0 = of_nat sections_found / 4 * 4;
          s1 = (if experience r \<noteq> [] \<and> length (experience r) > 1 then s0 + 2 else s0);
          s2 = (if experience r \<noteq> [] \<and> list_all (\<lambda>e. company e \<noteq> [] \<and> title e \<noteq> []) (experience r)
                then s1 + 2 else s1);
          s3 = (if raw_text r \<noteq> [] \<and>
                   length (filter (\<lambda>l. strip l \<noteq> []) (split [newline] (raw_text r))) > 10
                then s2 + 2 else s2)
      in min 10 s3)"

text \<open>\<open>r'\b\d+%|\b\d+\+|\b\d+[km]?\+|\b\d+[km]?\b'\<close>\<close>

definition quantifier_re :: regex where
  "quantifier_re =
     alts [seqs [Bnd, rplus digit, chr CHR ''%''],
           seqs [Bnd, rplus digit, chr CHR ''+''],
           seqs [Bnd, rplus digit, ropt (one_of ''km''), chr CHR ''+''],
           seqs [Bnd, rplus digit, ropt (one_of ''km''), Bnd]]"

definition action_verbs :: "string list" where
  "action_verbs =
     [''achieved'', ''developed'', ''implemented'', ''managed'', ''led'', ''created'', ''designed'',
      ''improved'', ''increased'', ''reduced'', ''optimized'', ''delivered'', ''executed'',
      ''coordinated'', ''facilitated'', ''established'', ''built'', ''launched'', ''streamlined'']"

definition summary_longer :: "nat \<Rightarrow> resume \<Rightarrow> bool" where
  "summary_longer n r = (case summary r of None \<Rightarrow> False | Some s \<Rightarrow> s \<noteq> [] \<and> length s > n)"

definition calculate_content_score :: "resume \<Rightarrow> rat" where
  "calculate_content_score r =
     (let s1 = (if raw_text r \<noteq> [] then
                  (let n = length (re_findall quantifier_re (raw_text r)) in
                   if n \<ge> 3 then 3 else if n \<ge> 1 then 3 / 2 else 0)
                else 0);
          s2 = (if raw_text r \<noteq> [] then
                  s1 + min 3 (of_nat (count_in action_verbs (lower (raw_text r)))
                              / of_nat (length action_verbs) * 3)
                else s1);
          s3 = (if summary_longer 50 r then s2 + 2 else s2);
          s4 = (if skills r \<noteq> [] \<and> length (skills r) \<ge> 5 then s3 + 2 else s3)
      in min 10 s4)"

text \<open>The share of the truthy fields among the given ones.\<close>

definition share :: "bool list \<Rightarrow> rat" where
  "share fs = of_nat (length (filter id fs)) / of_nat (length fs)"

definition exp_completeness :: "experience_entry \<Rightarrow> rat" where
  "exp_completeness e =
     share [company e \<noteq> [], title e \<noteq> [], truthy (experience_entry.start_date e),
            truthy (experience_entry.end_date e)]"

definition edu_completeness :: "education_entry \<Rightarrow> rat" where
  "edu_completeness e =
     share [institution e \<noteq> [], degree e \<noteq> [], truthy (education_entry.start_date e),
            truthy (education_entry.end_date e)]"

definition calculate_completeness_score :: "resume \<Rightarrow> rat" where
  "calculate_completeness_score r =
     (let s0 = share [truthy (name r), truthy (email r), truthy (phone r),
                      truthy (resume.location r)] * 2;
          s1 = (if experience r \<noteq> [] then
                  s0 + sum_list (map exp_completeness (experience r))
                       / of_nat (length (experience r)) * 3
                else s0);
          s2 = (if education r \<noteq> [] then
                  s1 + sum_list (map edu_completeness (education r))
                       / of_nat (length (education r)) * 2
                else s1);
          s3 = (if skills r \<noteq> [] \<and> length (skills r) \<ge> 5 then s2 + 2
                else if skills r \<noteq> [] then s2 + 1 else s2);
          s4 = (if summary_longer 100 r then s3 + 1 else s3)
      in min 10 s4)"

definition identify_red_flags :: "resume \<Rightarrow> string list" where
  "identify_red_flags r =
     (if raw_text r \<noteq> [] then
        map (\<lambda>flag. ''Contains '' @ [CHR 0x27] @ flag @ [CHR 0x27] @ '' which may hurt ATS performance'')
            (filter (\<lambda>flag. contains flag (lower (raw_text r))) ats_red_flags)
      else [])"

definition identify_missing_elements :: "resume \<Rightarrow> string list" where
  "identify_missing_elements r =
     (if \<not> truthy (name r) then [''Name''] else [])
     @ (if \<not> truthy (email r) then [''Email address''] else [])
     @ (if \<not> truthy (phone r) then [''Phone number''] else [])
     @ (if \<not> truthy (resume.location r) then [''Location''] else [])
     @ (if \<not> truthy (summary r) then [''Professional summary''] else [])
     @ (if skills r = [] \<or> length (skills r) < 5
        then [''Sufficient skills (aim for 5+ relevant skills)''] else [])
     @ (if experience r = [] then [''Work experience''] else [])
     @ (if education r = [] then [''Education section''] else [])"

text \<open>
  The dictionary \<open>analysis\<close>. Its entries \<open>keyword_density\<close> and \<open>format_compliance\<close> are
  reports that no score and no recommendation reads; they are left out.
\<close>

record detailed_scores =
  keyword_score :: rat
  format_score :: rat
  structure_score :: rat
  content_score :: rat
  completeness_score :: rat

record analysis =
  ats_score :: rat
  detailed :: detailed_scores
  red_flags :: "string list"
  missing_elements :: "string list"
  ats_recommendations :: "string list"

definition generate_ats_recommendations :: "resume \<Rightarrow> analysis \<Rightarrow> string list" where
  "generate_ats_recommendations r a =
     take 8
      ((if keyword_score (detailed a) < 6
        then [''Add more relevant keywords from job descriptions in your field'',
              ''Include both technical and soft skills keywords''] else [])
       @ (if detailed_scores.format_score (detailed a) < 7
          then [''Use standard section headers (Experience, Education, Skills)'',
                ''Ensure consistent formatting throughout the document''] else [])
       @ (if structure_score (detailed a) < 7
          then [''Organize experience in reverse chronological order'',
                ''Use bullet points for better readability''] else [])
       @ (if content_score (detailed a) < 6
          then [''Quantify your achievements with specific numbers and percentages'',
                ''Use strong action verbs to describe your accomplishments''] else [])
       @ (if completeness_score (detailed a) < 7
          then [''Ensure all contact information is complete and professional'',
                ''Add detailed descriptions for each work experience''] else [])
       @ (if red_flags a \<noteq> []
          then [''Remove any personal information not relevant to the job'',
                ''Avoid using '' @ [CHR 0x27] @ ''References available upon request'' @ [CHR 0x27]]
          else [])
       @ (if missing_elements a \<noteq> []
          then [''Add missing elements: '' @ join '', '' (take 3 (missing_elements a))] else []))"

text \<open>\<open>ATSAnalyzer.analyze\<close>\<close>

definition ats_analyze :: "resume \<Rightarrow> analysis" where
  "ats_analyze r =
     (let d = \<lparr>keyword_score = calculate_keyword_score r,
                format_score = calculate_format_score r,
                structure_score = calculate_structure_score r,
                content_score = calculate_content_score r,
                completeness_score = calculate_completeness_score r\<rparr>;
          a = \<lparr>ats_score = keyword_score d * (25 / 100) + detailed_scores.format_score d * (20 / 100)
                            + structure_score d * (20 / 100) + content_score d * (20 / 100)
                            + completeness_score d * (15 / 100),
                detailed = d,
                red_flags = identify_red_flags r,
                missing_elements = identify_missing_elements r,
                ats_recommendations = []\<rparr>
      in a\<lparr>ats_recommendations := generate_ats_recommendations r a\<rparr>)"

section \<open>Scoring (\<open>analyzers/scoring.py\<close>)\<close>

definition score_skills :: "resume \<Rightarrow> rat" where
  "score_skills r =
     (if skills r = [] then 0
      else
        let num_skills = length (skills r);
            s1 = (if num_skills \<ge> 15 then 5
                  else if num_skills \<ge> 10 then 4
                  else if num_skills \<ge> 7 then 3
                  else if num_skills \<ge> 5 then 2
                  else if num_skills \<ge> 3 then 1
                  else 0);
            s2 = (if skill_scores r \<noteq> [] then
                    s1 + min 5 (sum_list (map snd (skill_scores r))
                                / of_nat (max 1 (length (skill_scores r))))
                  else s1 + 5 / 2)
        in min 10 s2)"

text \<open>
  \<open>datetime.strptime\<close> of the Python standard library, for the five formats the source
  tries and the C locale: a format is turned into a regular expression (a blank into
  \<open>\s+\<close>, \<open>%Y\<close> into \<open>\d\d\d\d\<close>, \<open>%m\<close> into \<open>1[0-2]|0[1-9]|[1-9]\<close>, \<open>%b\<close> and \<open>%B\<close> into the
  month names, longest first), matched at the start of the string without regard to
  case; \<open>ValueError\<close> (here \<open>None\<close>) when there is no match, when the match leaves text
  over, or when the year is 0. The result is the year and the month (1 when the format
  has none).
\<close>

definition month_names :: "string list" where
  "month_names = [''january'', ''february'', ''march'', ''april'', ''may'', ''june'', ''july'',
                  ''august'', ''september'', ''october'', ''november'', ''december'']"

text \<open>The index (from 1) of a month name in a list of month names, compared without
  regard to case.\<close>

fun month_index :: "string list \<Rightarrow> string \<Rightarrow> nat" where
  "month_index [] m = 0"
| "month_index (n # ns) m = (if lower n = lower m then 1 else 1 + month_index ns m)"

datatype directive = MonthAbbrev | MonthName | MonthNumber | Year | Blank | Slash | Dash

definition longest_first :: "string list \<Rightarrow> string list" where
  "longest_first ns = rev (sort_key length ns)"

fun directive_re :: "directive \<Rightarrow> regex" where
  "directive_re MonthAbbrev = alts (map lit_ci (longest_first month_abbrevs))"
| "directive_re MonthName = alts (map lit_ci (longest_first month_names))"
| "directive_re MonthNumber =
     alts [Seq (chr CHR ''1'') (one_of ''012''), Seq (chr CHR ''0'') (one_of ''123456789''),
           one_of ''123456789'']"
| "directive_re Year = rep 4 digit"
| "directive_re Blank = rplus space"
| "directive_re Slash = chr CHR ''/''"
| "directive_re Dash = chr CHR ''-''"

text \<open>\<open>['%b %Y', '%B %Y', '%m/%Y', '%m-%Y', '%Y']\<close>\<close>

definition date_formats :: "directive list list" where
  "date_formats =
     [[MonthAbbrev, Blank, Year], [MonthName, Blank, Year], [MonthNumber, Slash, Year],
      [MonthNumber, Dash, Year], [Year]]"

text \<open>The fields that the groups of a match set, starting from year 1900 and month 1.\<close>

fun read_fields :: "(directive \<times> string) list \<Rightarrow> nat \<times> nat \<Rightarrow> nat \<times> nat" where
  "read_fields [] ym = ym"
| "read_fields ((MonthAbbrev, g) # gs) (y, m) = read_fields gs (y, month_index month_abbrevs g)"
| "read_fields ((MonthName, g) # gs) (y, m) = read_fields gs (y, month_index month_names g)"
| "read_fields ((MonthNumber, g) # gs) (y, m) = read_fields gs (y, digits_value g)"
| "read_fields ((Year, g) # gs) (y, m) = read_fields gs (digits_value g, m)"
| "read_fields ((d, g) # gs) ym = read_fields gs ym"

definition strptime :: "string \<Rightarrow> directive list \<Rightarrow> (nat \<times> nat) option" where
  "strptime date_string fmt =
     (case rmatch_parts (map directive_re fmt) ([], date_string) of
        [] \<Rightarrow> None
      | m # _ \<Rightarrow>
          if snd (last m) \<noteq> [] then None
          else (case read_fields (zip fmt (groups m)) (1900, 1) of
                  (y, mo) \<Rightarrow> if y = 0 then None else Some (y, mo)))"

text \<open>The loop over the formats: the first format that parses the string; \<open>None\<close> is
  the \<open>else\<close> branch of the loop (\<open>continue\<close> with the next experience).\<close>

fun parse_date :: "directive list list \<Rightarrow> string \<Rightarrow> (nat \<times> nat) option" where
  "parse_date [] date_string = None"
| "parse_date (fmt # fmts) date_string =
     (case strptime date_string fmt of Some d \<Rightarrow> Some d | None \<Rightarrow> parse_date fmts date_string)"

definition months_between :: "nat \<times> nat \<Rightarrow> nat \<times> nat \<Rightarrow> int" where
  "months_between start_d end_d =
     (int (fst end_d) - int (fst start_d)) * 12 + (int (snd end_d) - int (snd start_d))"

text \<open>
  The body of the loop over the experiences in \<open>score_experience\<close>: the new value of
  \<open>total_months\<close>. \<open>now\<close> is the year and month of \<open>datetime.now()\<close>.
\<close>

definition add_months :: "nat \<times> nat \<Rightarrow> int \<Rightarrow> experience_entry \<Rightarrow> int" where
  "add_months now total_months e =
     (case (experience_entry.start_date e, experience_entry.end_date e) of
        (Some sd, Some ed) \<Rightarrow>
          if sd \<noteq> [] \<and> ed \<noteq> [] \<and> lower ed \<noteq> ''present'' then
            (case parse_date date_formats sd of
               None \<Rightarrow> total_months
             | Some start_d \<Rightarrow>
                 (case parse_date date_formats ed of
                    None \<Rightarrow> total_months
                  | Some end_d \<Rightarrow> total_months + max 0 (months_between start_d end_d)))
          else if sd \<noteq> [] \<and> ed \<noteq> [] \<and> lower ed = ''present'' then
            (case parse_date date_formats sd of
               None \<Rightarrow> total_months
             | Some start_d \<Rightarrow> total_months + max 0 (months_between start_d now))
          else total_months + 12
      | _ \<Rightarrow> total_months + 12)"

definition score_experience :: "nat \<times> nat \<Rightarrow> resume \<Rightarrow> rat" where
  "score_experience now r =
     (if experience r = [] then 0
      else
        let num_experiences = length (experience r);
            s1 = (if num_experiences \<ge> 4 then 3
                  else if num_experiences \<ge> 3 then 5 / 2
                  else if num_experiences \<ge> 2 then 2
                  else if num_experiences \<ge> 1 then 1
                  else 0);
            total_months = foldl (add_months now) 0 (experience r);
            s2 = (if total_months \<ge> 60 then s1 + 3
                  else if total_months \<ge> 36 then s1 + 5 / 2
                  else if total_months \<ge> 24 then s1 + 2
                  else if total_months \<ge> 12 then s1 + 3 / 2
                  else if total_months > 0 then s1 + 1
                  else s1);
            has_responsibilities = list_ex (\<lambda>e. responsibilities e \<noteq> []) (experience r);
            has_descriptions = list_ex (\<lambda>e. truthy (experience_entry.description e)) (experience r);
            s3 = (if has_responsibilities \<and> has_descriptions then s2 + 2
                  else if has_responsibilities \<or> has_descriptions then s2 + 1
                  else s2);
            has_titles = list_all (\<lambda>e. title e \<noteq> []) (experience r);
            has_companies = list_all (\<lambda>e. company e \<noteq> []) (experience r);
            s4 = (if has_titles \<and> has_companies then s3 + 2
                  else if has_titles \<or> has_companies then s3 + 1
                  else s3)
        in min 10 s4)"

text \<open>The four searches of \<open>score_education\<close> in the lowercased degree.\<close>

definition doctor_re :: regex where
  "doctor_re = alts [seqs [lit ''ph'', ropt (chr CHR ''.''), lit ''d''],
                     seqs [lit ''doc'', ropt (chr CHR ''t''), lit ''or''],
                     lit ''doctorate'']"

definition master_re :: regex where
  "master_re = alts (map lit [''master'', ''ms'', ''ma'', ''mba'', ''m.s'', ''m.a''])"

definition bachelor_re :: regex where
  "bachelor_re = alts (map lit [''bachelor'', ''bs'', ''ba'', ''b.s'', ''b.a''])"

definition associate_re :: regex where
  "associate_re = alts (map lit [''associate'', ''certificate'', ''diploma''])"

definition degree_score :: "education_entry \<Rightarrow> rat" where
  "degree_score e =
     (let d = lower (degree e)
      in if re_found doctor_re d then 4
         else if re_found master_re d then 3
         else if re_found bachelor_re d then 2
         else if re_found associate_re d then 1
         else 1 / 2)"

definition entry_score :: "education_entry \<Rightarrow> rat" where
  "entry_score e =
     min 3
       ((if institution e \<noteq> [] then 1 / 2 else 0)
        + (if truthy (field e) then 1 / 2 else 0)
        + (if truthy (education_entry.start_date e) \<or> truthy (education_entry.end_date e)
           then 1 / 2 else 0)
        + (if truthy_num (gpa e) then 1 / 2 else 0)
        + (if truthy (education_entry.location e) then 1 / 2 else 0)
        + (if truthy (education_entry.description e) then 1 / 2 else 0))"

definition score_education :: "resume \<Rightarrow> rat" where
  "score_education r =
     (if education r = [] then 0
      else
        let num_education = length (education r);
            s1 = (if num_education \<ge> 3 then 3
                  else if num_education \<ge> 2 then 2
                  else if num_education \<ge> 1 then 1
                  else 0);
            highest_degree_score = foldl (\<lambda>h e. max h (degree_score e)) 0 (education r);
            s2 = s1 + highest_degree_score;
            completeness_score = sum_list (map entry_score (education r));
            s3 = (if num_education > 0
                  then s2 + min 3 (completeness_score / of_nat num_education) else s2)
        in min 10 s3)"

definition score_format :: "resume \<Rightarrow> rat" where
  "score_format r =
     (let contact_score = (if truthy (name r) then 1 / 2 else 0)
                          + (if truthy (email r) then 1 / 2 else 0)
                          + (if truthy (phone r) then 1 / 2 else 0)
                          + (if truthy (resume.location r) then 1 / 2 else 0);
          s1 = 5 + min 2 contact_score;
          s2 = (if truthy (summary r) then s1 + 1 else s1);
          s3 = (if raw_text r \<noteq> [] then
                  (let wc = word_count (raw_text r);
                       s' = (if 300 \<le> wc \<and> wc \<le> 700 then s2 + 1
                             else if (200 \<le> wc \<and> wc < 300) \<or> (700 < wc \<and> wc \<le> 1000)
                             then s2 + 1 / 2
                             else s2);
                       ld = lexical_diversity (raw_text r)
                   in if 4 / 10 \<le> ld \<and> ld \<le> 7 / 10 then s' + 1
                      else if (3 / 10 \<le> ld \<and> ld < 4 / 10) \<or> (7 / 10 < ld \<and> ld \<le> 8 / 10)
                      then s' + 1 / 2
                      else s')
                else s2)
      in min 10 s3)"

text \<open>
  \<open>round(x, 1)\<close> on an exact rational: the nearest multiple of one tenth, a tie going to
  the even one. (On a float Python rounds the binary value, so that a result of
  floating-point arithmetic near a tie may go either way.)
\<close>

definition round_half_even :: "rat \<Rightarrow> int" where
  "round_half_even x =
     (let f = \<lfloor>x\<rfloor>; d = x - of_int f
      in if d < 1 / 2 then f else if d > 1 / 2 then f + 1 else if even f then f else f + 1)"

definition round1 :: "rat \<Rightarrow> rat" where
  "round1 x = of_int (round_half_even (x * 10)) / 10"

text \<open>The weighted sum of the four component scores, before it is rounded.\<close>

definition weighted_sum :: "rat \<Rightarrow> rat \<Rightarrow> rat \<Rightarrow> rat \<Rightarrow> rat" where
  "weighted_sum skill experience_s education_s format_s =
     skill * (3 / 10) + experience_s * (4 / 10) + education_s * (2 / 10) + format_s * (1 / 10)"

definition score_resume :: "nat \<times> nat \<Rightarrow> resume \<Rightarrow> resume" where
  "score_resume now r =
     (let skill = score_skills r;
          experience_s = score_experience now r;
          education_s = score_education r;
          format_s = score_format r
      in r\<lparr>skill_score := Some skill,
           experience_score := experience_s,
           education_score := education_s,
           resume.format_score := Some format_s,
           overall_score := round1 (weighted_sum skill experience_s education_s format_s)\<rparr>)"

definition general_recommendations :: "string list" where
  "general_recommendations =
     [''Quantify your achievements with specific numbers and metrics where possible.'',
      ''Tailor your resume for each job application to highlight relevant skills and experience.'',
      ''Use action verbs to describe your responsibilities and achievements.'',
      ''Proofread your resume for spelling and grammar errors.'',
      ''Consider adding a LinkedIn profile or personal website to your contact information.'',
      ''Organize your resume in reverse chronological order (most recent experience first).'']"

text \<open>The loop that adds general recommendations until there are three.\<close>

fun add_general :: "string list \<Rightarrow> string list \<Rightarrow> string list" where
  "add_general [] recs = recs"
| "add_general (g # gs) recs =
     (if g \<notin> set recs
      then (if length (recs @ [g]) \<ge> 3 then recs @ [g] else add_general gs (recs @ [g]))
      else add_general gs recs)"

definition generate_recommendations :: "resume \<Rightarrow> resume" where
  "generate_recommendations r =
     (let recs1 = (if skills r = [] \<or> length (skills r) < 5
                   then [''Add more skills to your resume, aim for at least 5-10 relevant skills.'']
                   else []);
          recs2 = recs1 @
                  (if experience r = [] then
                     [''Add work experience to your resume, even if it'' @ [CHR 0x27]
                      @ ''s internships or volunteer work.'']
                   else if list_ex (\<lambda>e. responsibilities e = []
                                          \<and> \<not> truthy (experience_entry.description e)) (experience r)
                   then [''Add detailed responsibilities or descriptions to your work experience.'']
                   else []);
          recs3 = recs2 @
                  (if education r = [] then [''Add your educational background to your resume.'']
                   else []);
          missing_contact = (if \<not> truthy (name r) then [''name''] else [])
                            @ (if \<not> truthy (email r) then [''email''] else [])
                            @ (if \<not> truthy (phone r) then [''phone number''] else []);
          recs4 = recs3 @
                  (if missing_contact \<noteq> []
                   then [''Add your '' @ join '', '' missing_contact @ '' to your contact information.'']
                   else []);
          recs5 = recs4 @
                  (if \<not> truthy (summary r)
                   then [''Add a professional summary to highlight your key qualifications and career objectives.'']
                   else []);
          recs6 = recs5 @
                  (if raw_text r \<noteq> [] then
                     (if word_count (raw_text r) > 1000 then
                        [''Your resume is quite long. Consider condensing it to 1-2 pages (300-700 words).'']
                      else if word_count (raw_text r) < 200 then
                        [''Your resume is quite short. Consider adding more details about your experience and skills.'']
                      else [])
                   else []);
          recs7 = (if length recs6 < 3 then add_general general_recommendations recs6 else recs6)
      in r\<lparr>recommendations := recs7\<rparr>)"

section \<open>The dashboard pipeline (\<open>dashboard.py\<close>, \<open>test_dashboard.py\<close>)\<close>

text \<open>
  \<open>process_resume\<close> from the construction of the \<open>Resume\<close> object on, with the ATS
  analysis included: the three analyzers, \<open>score_resume\<close>, \<open>generate_recommendations\<close>
  and \<open>ATSAnalyzer.analyze\<close>. The result is the resume and the ATS analysis.
\<close>

definition process_resume ::
  "skills_data \<Rightarrow> nat \<times> nat \<Rightarrow> string \<Rightarrow> string \<Rightarrow> py_error + resume \<times> analysis" where
  "process_resume sd now resume_text fname =
     (case analyze_resume sd resume_text fname of
        Inl e \<Rightarrow> Inl e
      | Inr r \<Rightarrow>
          (let r' = generate_recommendations (score_resume now r)
           in Inr (r', ats_analyze r')))"

text \<open>The built-in skills data.\<close>

definition DEFAULT_SKILLS :: skills_data where
  "DEFAULT_SKILLS =
     [(''programming_languages'',
        [''Python'', ''Java'', ''JavaScript'', ''C++'', ''C#'', ''Ruby'', ''PHP'', ''Swift'',
         ''Kotlin'', ''Go'', ''Rust'', ''TypeScript'', ''Scala'', ''Perl'', ''R'', ''MATLAB'',
         ''Bash'', ''PowerShell'', ''SQL'', ''HTML'', ''CSS'', ''C'', ''Objective-C'', ''Dart'',
         ''Groovy'', ''VBA'', ''Lua'', ''Haskell'', ''Clojure'', ''F#'', ''COBOL'', ''Fortran'']),
      (''frameworks_libraries'',
        [''React'', ''Angular'', ''Vue.js'', ''Django'', ''Flask'', ''Spring'', ''ASP.NET'',
         ''Express.js'', ''Node.js'', ''jQuery'', ''Bootstrap'', ''TensorFlow'', ''PyTorch'',
         ''Keras'', ''Pandas'', ''NumPy'', ''Scikit-learn'', ''Laravel'', ''Ruby on Rails'',
         ''Symfony'', ''Flutter'', ''React Native'', ''Xamarin'', ''Unity'', ''Unreal Engine'',
         ''Next.js'', ''Gatsby'', ''Redux'', ''Vuex'', ''MobX'', ''RxJS'', ''D3.js'',
         ''Three.js'']),
      (''databases'',
        [''MySQL'', ''PostgreSQL'', ''MongoDB'', ''SQLite'', ''Oracle'', ''SQL Server'',
         ''Redis'', ''Cassandra'', ''Elasticsearch'', ''DynamoDB'', ''Firebase'', ''Neo4j'',
         ''MariaDB'', ''CouchDB'', ''Firestore'', ''Realm'', ''InfluxDB'', ''Couchbase'']),
      (''cloud_platforms'',
        [''AWS'', ''Azure'', ''Google Cloud'', ''Heroku'', ''DigitalOcean'', ''Linode'',
         ''IBM Cloud'', ''Oracle Cloud'', ''Alibaba Cloud'', ''Salesforce'', ''Netlify'',
         ''Vercel'', ''Firebase'', ''AWS Lambda'', ''EC2'', ''S3'', ''RDS'', ''DynamoDB'',
         ''CloudFront'', ''Route 53'', ''IAM'', ''Azure Functions'', ''App Service'',
         ''Google App Engine'', ''Google Kubernetes Engine'', ''Cloud Functions'']),
      (''devops_tools'',
        [''Docker'', ''Kubernetes'', ''Jenkins'', ''GitLab CI'', ''GitHub Actions'',
         ''Travis CI'', ''CircleCI'', ''Ansible'', ''Terraform'', ''Puppet'', ''Chef'',
         ''Vagrant'', ''Prometheus'', ''Grafana'', ''ELK Stack'', ''Nagios'', ''Zabbix'',
         ''New Relic'', ''Datadog'', ''Splunk'', ''Sentry'', ''Airflow'', ''Argo CD'']),
      (''version_control'',
        [''Git'', ''SVN'', ''Mercurial'', ''GitHub'', ''GitLab'', ''Bitbucket'', ''Azure DevOps'']),
      (''methodologies'',
        [''Agile'', ''Scrum'', ''Kanban'', ''Waterfall'', ''Lean'', ''XP'', ''TDD'', ''BDD'',
         ''DevOps'', ''CI/CD'', ''Microservices'', ''Serverless'', ''Domain-Driven Design'']),
      (''soft_skills'',
        [''Communication'', ''Teamwork'', ''Problem Solving'', ''Critical Thinking'',
         ''Time Management'', ''Leadership'', ''Adaptability'', ''Creativity'',
         ''Collaboration'', ''Emotional Intelligence'', ''Conflict Resolution'',
         ''Decision Making'', ''Negotiation'', ''Presentation'', ''Public Speaking'',
         ''Mentoring'', ''Coaching'']),
      (''data_science'',
        [''Machine Learning'', ''Deep Learning'', ''Natural Language Processing'',
         ''Computer Vision'', ''Data Mining'', ''Data Analysis'', ''Data Visualization'',
         ''Statistical Analysis'', ''A/B Testing'', ''Regression'', ''Classification'',
         ''Clustering'', ''Dimensionality Reduction'', ''Feature Engineering'',
         ''Reinforcement Learning'', ''Time Series Analysis'', ''Bayesian Methods'']),
      (''design'',
        [''UI/UX'', ''Photoshop'', ''Illustrator'', ''Sketch'', ''Figma'', ''InDesign'',
         ''After Effects'', ''Premiere Pro'', ''Blender'', ''3D Modeling'', ''Animation'',
         ''Wireframing'', ''Prototyping'', ''User Research'', ''Usability Testing'',
         ''Responsive Design'', ''Graphic Design'', ''Typography'', ''Color Theory'']),
      (''project_management'',
        [''JIRA'', ''Trello'', ''Asana'', ''Monday.com'', ''ClickUp'', ''Basecamp'',
         ''Microsoft Project'', ''Smartsheet'', ''Notion'', ''Confluence'', ''Slack'',
         ''Microsoft Teams'', ''Zoom'', ''Google Meet'', ''Risk Management'', ''Budgeting'',
         ''Resource Allocation'', ''Stakeholder Management'']),
      (''mobile_development'',
        [''iOS'', ''Android'', ''Swift'', ''Kotlin'', ''Objective-C'', ''Java'',
         ''React Native'', ''Flutter'', ''Xamarin'', ''Ionic'', ''Cordova'', ''PhoneGap'',
         ''SwiftUI'', ''Jetpack Compose'', ''ARKit'', ''ARCore'', ''Core ML'',
         ''TensorFlow Lite'']),
      (''testing'',
        [''Unit Testing'', ''Integration Testing'', ''Functional Testing'',
         ''End-to-End Testing'', ''Regression Testing'', ''Performance Testing'',
         ''Load Testing'', ''Stress Testing'', ''Security Testing'', ''Penetration Testing'',
         ''JUnit'', ''pytest'', ''Mocha'', ''Jest'', ''Selenium'', ''Cypress'', ''Appium'',
         ''TestNG'', ''Jasmine'', ''Karma'', ''Postman'']),
      (''security'',
        [''Cybersecurity'', ''Network Security'', ''Application Security'', ''Cloud Security'',
         ''Encryption'', ''Authentication'', ''Authorization'', ''OAuth'', ''JWT'', ''SAML'',
         ''SSO'', ''Firewall'', ''VPN'', ''Intrusion Detection'', ''Penetration Testing'',
         ''Vulnerability Assessment'', ''Security Auditing'', ''Compliance'', ''GDPR'', ''HIPAA''])]"

section \<open>Specification-side definitions\<close>

text \<open>
  The order in which \<open>_generate_ats_recommendations\<close> generates its recommendations, as
  the specification names it: keyword, format, structure, content, completeness,
  red-flag and missing-element recommendations.
\<close>

definition ats_recommendation_order :: "analysis \<Rightarrow> string list" where
  "ats_recommendation_order a =
     [''Add more relevant keywords from job descriptions in your field'',
      ''Include both technical and soft skills keywords'']
     @ [''Use standard section headers (Experience, Education, Skills)'',
        ''Ensure consistent formatting throughout the document'']
     @ [''Organize experience in reverse chronological order'',
        ''Use bullet points for better readability'']
     @ [''Quantify your achievements with specific numbers and percentages'',
        ''Use strong action verbs to describe your accomplishments'']
     @ [''Ensure all contact information is complete and professional'',
        ''Add detailed descriptions for each work experience'']
     @ [''Remove any personal information not relevant to the job'',
        ''Avoid using '' @ [CHR 0x27] @ ''References available upon request'' @ [CHR 0x27]]
     @ [''Add missing elements: '' @ join '', '' (take 3 (missing_elements a))]"

section \<open>Verified properties\<close>

subsection \<open>General list facts\<close>

lemma subseq_take_self: "subseq (take n xs) xs"
proof -
  have "subseq (take n xs) (take n xs @ drop n xs)"
    by (rule subseq_rev_drop_many) simp
  then show ?thesis by simp
qed

lemma subseq_keeps_distinct: "subseq xs ys \<Longrightarrow> distinct ys \<Longrightarrow> distinct xs"
  by (auto simp: subseq_conv_nths intro: distinct_nthsI)

lemma subseq_if_nil: "subseq (if b then xs else []) xs"
  by simp

subsection \<open>ATS recommendations\<close>

lemma distinct_ats_recommendation_order: "distinct (ats_recommendation_order a)"
  unfolding ats_recommendation_order_def by simp

lemma subseq_generate_ats_recommendations:
  "subseq (generate_ats_recommendations r a) (ats_recommendation_order a)"
  unfolding generate_ats_recommendations_def ats_recommendation_order_def
  by (rule subseq_order.trans[OF subseq_take_self]) (intro list_emb_append_mono subseq_if_nil)

text \<open>
  Claim C8. For every resume and every ATS analysis result, the list returned by
  \<open>_generate_ats_recommendations\<close> has at most 8 items, has no duplicate string, and
  lists its items in generation order: it is a subsequence of the keyword, format,
  structure, content, completeness, red-flag and missing-element recommendations, in
  that order. The source has no deduplication pass; the candidates are pairwise
  different strings.
\<close>

theorem ats_recommendations_capped_distinct_ordered:
  "length (generate_ats_recommendations r a) \<le> 8
   \<and> distinct (generate_ats_recommendations r a)
   \<and> subseq (generate_ats_recommendations r a) (ats_recommendation_order a)"
proof (intro conjI)
  show "length (generate_ats_recommendations r a) \<le> 8"
    unfolding generate_ats_recommendations_def by (simp only: length_take min.cobounded2)
  show "subseq (generate_ats_recommendations r a) (ats_recommendation_order a)"
    by (rule subseq_generate_ats_recommendations)
  then show "distinct (generate_ats_recommendations r a)"
    using distinct_ats_recommendation_order subseq_keeps_distinct by blast
qed

subsection \<open>Section bodies have no blank line\<close>

lemma strip_Nil [simp]: "strip [] = []"
  by (simp add: strip_def)

lemma split_not_Nil [simp]: "split sep s \<noteq> []"
  by (induction sep s rule: split.induct) (auto split: list.splits)

lemma split_char_no_sep: "l \<in> set (split [c] s) \<Longrightarrow> c \<notin> set l"
proof (induction s arbitrary: l)
  case Nil
  then show ?case by simp
next
  case (Cons x xs)
  show ?case
  proof (cases "x = c")
    case True
    with Cons show ?thesis by auto
  next
    case False
    obtain w ws where ws: "split [c] xs = w # ws"
      by (cases "split [c] xs") auto
    with Cons False show ?thesis by auto
  qed
qed

lemma contains_pair_append:
  "c \<notin> set x \<Longrightarrow> contains [c, c] (x @ c # t) = contains [c, c] (c # t)"
  by (induction x) auto

lemma contains_pair_Cons:
  "contains [c, c] (c # t) = ((t \<noteq> [] \<and> hd t = c) \<or> contains [c, c] t)"
  by (cases t) auto

lemma not_prefix_single: "t \<noteq> [] \<Longrightarrow> hd t \<noteq> c \<Longrightarrow> \<not> prefix [c] t"
  by (cases t) auto

lemma contains_pair_none: "c \<notin> set x \<Longrightarrow> \<not> contains [c, c] x"
  by (induction x) auto

text \<open>Lines that are not empty and hold no separator, joined by the separator, never
  give two separators in a row.\<close>

lemma join_lines_no_blank:
  "list_all (\<lambda>l. l \<noteq> [] \<and> c \<notin> set l) ls \<Longrightarrow>
   \<not> contains [c, c] (join [c] ls) \<and> (ls \<noteq> [] \<longrightarrow> join [c] ls \<noteq> [] \<and> hd (join [c] ls) \<noteq> c)"
proof (induction "[c]" ls rule: join.induct)
  case 1
  then show ?case by simp
next
  case (2 x)
  then show ?case by (cases x) (auto simp: contains_pair_none)
next
  case (3 x y ys)
  then have x: "x \<noteq> []" "c \<notin> set x" and rest: "list_all (\<lambda>l. l \<noteq> [] \<and> c \<notin> set l) (y # ys)"
    by auto
  from 3(1)[OF rest] have ih: "\<not> contains [c, c] (join [c] (y # ys))"
    "join [c] (y # ys) \<noteq> []" "hd (join [c] (y # ys)) \<noteq> c" by auto
  have "\<not> contains [c, c] (x @ c # join [c] (y # ys))"
    using x ih not_prefix_single[of "join [c] (y # ys)" c]
    by (simp add: contains_pair_append contains_pair_Cons)
  moreover have "hd (x @ c # join [c] (y # ys)) \<noteq> c"
    using x by (cases x) auto
  ultimately show ?case using x by simp
qed

lemma slice_subset: "set (slice a b xs) \<subseteq> set xs"
  unfolding slice_def by (meson set_take_subset set_drop_subset subset_trans)

lemma extract_section_body:
  assumes "extract_section s hs = Some body"
  shows "\<exists>ls. body = join [newline] ls \<and> list_all (\<lambda>l. l \<noteq> [] \<and> newline \<notin> set l) ls"
proof -
  from assms obtain a b where
    body: "body = join [newline] (filter (\<lambda>line. strip line \<noteq> []) (slice a b (split [newline] s)))"
    by (auto simp: extract_section_def Let_def split: prod.splits option.splits)
  let ?ls = "filter (\<lambda>line. strip line \<noteq> []) (slice a b (split [newline] s))"
  have "list_all (\<lambda>l. l \<noteq> [] \<and> newline \<notin> set l) ?ls"
    unfolding list_all_iff using slice_subset[of a b "split [newline] s"] split_char_no_sep
    by auto
  with body show ?thesis by blast
qed

text \<open>
  Claim C10. For every input text and every header list, the section body that
  \<open>_extract_section\<close> returns has no blank line (no two newlines in a row), since only
  lines that are not blank are joined; so on such a body the first rule of
  \<open>_split_section_into_entries\<close> (split at blank lines) does not apply, and the entries
  are those of the second rule (and of the third when the second gives none).
\<close>

theorem section_body_has_no_blank_line:
  assumes "extract_section s hs = Some body"
  shows "\<not> contains [newline, newline] body
         \<and> split_section_into_entries body =
             (let entries = split_by_starts [] [] (split [newline] body)
              in if entries = [] then [body] else entries)"
proof -
  from extract_section_body[OF assms] obtain ls where
    "body = join [newline] ls" "list_all (\<lambda>l. l \<noteq> [] \<and> newline \<notin> set l) ls" by blast
  then have nb: "\<not> contains [newline, newline] body"
    using join_lines_no_blank by blast
  then show ?thesis by (simp add: split_section_into_entries_def Let_def)
qed

text \<open>A text whose experience section has a blank line and a line of blanks: both are
  dropped from the body.\<close>

theorem section_body_has_no_blank_line_witness:
  "extract_section (''Experience'' @ [newline] @ ''Acme Corp'' @ [newline] @ [newline] @ '' ''
                    @ [newline] @ ''Other Inc'') experience_headers
     = Some (''Acme Corp'' @ [newline] @ ''Other Inc'')
   \<and> \<not> contains [newline, newline] (''Acme Corp'' @ [newline] @ ''Other Inc'')
   \<and> split_section_into_entries (''Acme Corp'' @ [newline] @ ''Other Inc'') =
       (let entries = split_by_starts [] [] (split [newline] (''Acme Corp'' @ [newline] @ ''Other Inc''))
        in if entries = [] then [''Acme Corp'' @ [newline] @ ''Other Inc''] else entries)"
proof -
  have h: "extract_section (''Experience'' @ [newline] @ ''Acme Corp'' @ [newline] @ [newline] @ '' ''
                    @ [newline] @ ''Other Inc'') experience_headers
            = Some (''Acme Corp'' @ [newline] @ ''Other Inc'')"
    by code_simp
  from section_body_has_no_blank_line[OF h] h show ?thesis by blast
qed

subsection \<open>The analyzers never raise\<close>

lemma rmatch_Star_not_Nil [simp]: "rmatch (Star r) p \<noteq> []"
  by (simp add: rmatch.simps(5))

lemma contains_split1: "contains sep s \<Longrightarrow> \<exists>a b. split1 sep s = Some (a, b)"
  by (induction sep s rule: split1.induct) auto

lemma is_space_not_upper: "is_space c \<Longrightarrow> \<not> is_upper c"
  by (auto simp: is_space_def is_upper_def)

lemma to_lower_space: "is_space c \<Longrightarrow> to_lower c = c"
  by (simp add: to_lower_def is_space_not_upper)

lemma to_lower_eq_blank: "to_lower c = CHR '' '' \<Longrightarrow> c = CHR '' ''"
  by (cases c) (auto simp: to_lower_def is_upper_def split: if_splits)

lemma to_lower_letter_not_space:
  assumes "to_lower c = CHR ''a''"
  shows "\<not> is_space c"
proof
  assume sp: "is_space c"
  with assms have "c = CHR ''a''" by (simp add: to_lower_space)
  with sp show False by (simp add: is_space_def)
qed

lemma at_word_matches:
  assumes "prefix '' at '' (lower s)"
  shows "rmatch at_word (pre, s) \<noteq> []"
proof -
  from assms obtain c1 c2 c3 c4 rest where s: "s = c1 # c2 # c3 # c4 # rest"
    and c: "to_lower c1 = CHR '' ''" "to_lower c2 = CHR ''a''" "to_lower c3 = CHR ''t''"
           "to_lower c4 = CHR '' ''"
    by (auto simp: lower_def prefix_def Cons_eq_map_conv)
  from c have s': "s = CHR '' '' # c2 # c3 # CHR '' '' # rest"
    using s by (auto dest: to_lower_eq_blank)
  have ns: "\<not> is_space c2" using c(2) by (rule to_lower_letter_not_space)
  have sp: "is_space CHR '' ''" by (simp add: is_space_def)
  have la: "to_lower CHR ''a'' = CHR ''a''" "to_lower CHR ''t'' = CHR ''t''"
    by (simp_all add: to_lower_def is_upper_def)
  have m1: "rmatch (rplus space) (pre, s) = [(CHR '' '' # pre, c2 # c3 # CHR '' '' # rest)]"
    using ns sp by (simp add: s' rplus_def rmatch.simps(5))
  have m2: "rmatch (lit_ci ''at'') (CHR '' '' # pre, c2 # c3 # CHR '' '' # rest)
            = [(c3 # c2 # CHR '' '' # pre, CHR '' '' # rest)]"
    using c(2,3) la by (simp add: lit_ci_def chr_ci_def)
  have m3: "rmatch (rplus space) (c3 # c2 # CHR '' '' # pre, CHR '' '' # rest)
            = rmatch (Star space) (CHR '' '' # c3 # c2 # CHR '' '' # pre, rest)"
    using sp by (simp add: rplus_def)
  show ?thesis
    by (simp add: at_word_def m1 m2 m3)
qed

lemma rmatch_parts_single: "rmatch_parts [r] p = map (\<lambda>q. [p, q]) (rmatch r p)"
  by (simp add: comp_def)

lemma search_single_shape:
  "search_parts_from [r] pre s = Some m \<Longrightarrow> \<exists>p q. m = [p, q]"
  by (induction s arbitrary: pre) (auto simp: rmatch_parts_single split: list.splits)

lemma search_at_found:
  "contains '' at '' (lower s) \<Longrightarrow> search_parts_from [at_word] pre s \<noteq> None"
proof (induction s arbitrary: pre)
  case Nil
  then show ?case by (simp add: lower_def)
next
  case (Cons c cs)
  show ?case
  proof (cases "rmatch at_word (pre, c # cs)")
    case Nil
    with at_word_matches[of "c # cs" pre] have "\<not> prefix '' at '' (lower (c # cs))" by blast
    moreover from Cons.prems have "prefix '' at '' (lower (c # cs)) \<or> contains '' at '' (lower cs)"
      by (simp only: lower_def list.map contains.simps)
    ultimately have "contains '' at '' (lower cs)" by blast
    from Cons.IH[OF this] Nil show ?thesis by (simp add: rmatch_parts_single)
  next
    case (Cons q qs)
    then show ?thesis by (simp add: rmatch_parts_single)
  qed
qed

lemma split_at_word_found:
  "contains '' at '' (lower line) \<Longrightarrow> split_at_word line \<noteq> None"
proof -
  assume "contains '' at '' (lower line)"
  from search_at_found[OF this, of "[]"] obtain m where
    m: "search_parts_from [at_word] [] line = Some m" by auto
  with search_single_shape obtain p q where "m = [p, q]" by blast
  with m show ?thesis by (simp add: split_at_word_def)
qed

lemma fields_of_line_no_error: "fields_of_line l \<noteq> Some (Inl e)"
proof -
  let ?line = "strip l"
  consider (dash) "contains '' - '' ?line"
    | (at) "\<not> contains '' - '' ?line" "contains '' at '' (lower ?line)"
    | (comma) "\<not> contains '' - '' ?line" "\<not> contains '' at '' (lower ?line)" "contains '','' ?line"
    | (none) "\<not> contains '' - '' ?line" "\<not> contains '' at '' (lower ?line)" "\<not> contains '','' ?line"
    by blast
  then show ?thesis
  proof cases
    case dash
    with contains_split1[OF dash] show ?thesis
      by (auto simp: fields_of_line_def Let_def)
  next
    case at
    with split_at_word_found[OF at(2)] show ?thesis
      by (auto simp: fields_of_line_def Let_def)
  next
    case comma
    with contains_split1[OF comma(3)] show ?thesis
      by (auto simp: fields_of_line_def Let_def)
  next
    case none
    then show ?thesis by (simp add: fields_of_line_def Let_def)
  qed
qed

lemma first_fields_no_error: "first_fields ls \<noteq> Inl e"
  by (induction ls) (auto simp: fields_of_line_no_error split: option.splits)

lemma fill_fields_no_error: "lines \<noteq> [] \<Longrightarrow> fill_fields lines ct \<noteq> Inl e"
  by (auto simp: fill_fields_def Let_def split: prod.splits list.splits)

lemma extract_company_title_no_error: "extract_company_title entry \<noteq> Inl e"
  using first_fields_no_error fill_fields_no_error
  by (auto simp: extract_company_title_def Let_def split: sum.splits)

lemma extract_institution_degree_no_error: "extract_institution_degree entry \<noteq> Inl e"
  using first_fields_no_error fill_fields_no_error[of "split [newline] entry"]
  by (auto simp: extract_institution_degree_def Let_def split: sum.splits prod.splits)

lemma field_of_indicators_no_error: "field_of_indicators inds line \<noteq> Some (Inl e)"
proof (induction inds)
  case Nil
  then show ?case by simp
next
  case (Cons ind inds)
  show ?case
  proof (cases "contains ind line")
    case True
    with contains_split1[OF True] show ?thesis by auto
  next
    case False
    with Cons show ?thesis by simp
  qed
qed

lemma field_of_lines_no_error: "field_of_lines ls \<noteq> Inl e"
  by (induction ls) (auto simp: field_of_indicators_no_error split: option.splits sum.splits)

lemma extract_field_of_study_no_error: "extract_field_of_study entry d \<noteq> Inl e"
  by (auto simp: extract_field_of_study_def Let_def field_of_lines_no_error split: option.splits)

lemma add_experience_entry_no_error: "add_experience_entry entry r \<noteq> Inl e"
  using extract_company_title_no_error
  by (auto simp: add_experience_entry_def split: sum.splits prod.splits)

lemma add_education_entry_no_error: "add_education_entry entry r \<noteq> Inl e"
  using extract_institution_degree_no_error extract_field_of_study_no_error
  by (auto simp: add_education_entry_def split: sum.splits prod.splits)

lemma for_entries_no_error:
  "(\<And>entry r e. body entry r \<noteq> Inl e) \<Longrightarrow> for_entries body entries r \<noteq> Inl e"
  by (induction entries arbitrary: r) (auto split: sum.splits)

lemma extract_experience_no_error: "extract_experience r \<noteq> Inl e"
  using for_entries_no_error[of add_experience_entry] add_experience_entry_no_error
  by (auto simp: extract_experience_def split: option.splits)

lemma extract_education_no_error: "extract_education r \<noteq> Inl e"
  using for_entries_no_error[of add_education_entry] add_education_entry_no_error
  by (auto simp: extract_education_def split: option.splits)

lemma experience_analyze_no_error: "experience_analyze r \<noteq> Inl e"
  using extract_experience_no_error extract_education_no_error
  by (auto simp: experience_analyze_def split: sum.splits)

lemma analyze_resume_returns: "\<exists>r. analyze_resume sd s f = Inr r"
  using experience_analyze_no_error
  by (cases "analyze_resume sd s f") (auto simp: analyze_resume_def)

subsection \<open>What each stage leaves unchanged\<close>

text \<open>Rules for the functions that only add recommendations.\<close>

lemma only_recs_refl: "r = r\<lparr>recommendations := recommendations r\<rparr>"
  by simp

lemma only_recs_add:
  "r' = r\<lparr>recommendations := recommendations r'\<rparr> \<Longrightarrow>
   add_recommendation x r' = r\<lparr>recommendations := recommendations (add_recommendation x r')\<rparr>"
proof -
  assume a: "r' = r\<lparr>recommendations := recommendations r'\<rparr>"
  have "add_recommendation x r' = r'\<lparr>recommendations := recommendations (add_recommendation x r')\<rparr>"
    by (simp add: add_recommendation_def)
  also have "\<dots> = (r\<lparr>recommendations := recommendations r'\<rparr>)
                      \<lparr>recommendations := recommendations (add_recommendation x r')\<rparr>"
    using a by simp
  finally show ?thesis by simp
qed

lemma only_recs_if:
  "a = r\<lparr>recommendations := recommendations a\<rparr> \<Longrightarrow>
   b = r\<lparr>recommendations := recommendations b\<rparr> \<Longrightarrow>
   (if c then a else b) = r\<lparr>recommendations := recommendations (if c then a else b)\<rparr>"
  by simp

lemma only_recs_fold:
  assumes "\<And>x r. f x r = r\<lparr>recommendations := recommendations (f x r)\<rparr>"
    and "r' = r\<lparr>recommendations := recommendations r'\<rparr>"
  shows "fold f xs r' = r\<lparr>recommendations := recommendations (fold f xs r')\<rparr>"
  using assms(2)
proof (induction xs arbitrary: r')
  case Nil
  then show ?case by simp
next
  case (Cons x xs)
  have "f x r' = r\<lparr>recommendations := recommendations (f x r')\<rparr>"
    using assms(1)[of x r'] Cons.prems
    by (metis (no_types) resume.update_convs(20) resume.surjective)
  from Cons.IH[OF this] show ?case by simp
qed

lemmas only_recs = only_recs_if only_recs_add only_recs_fold only_recs_refl

lemma experience_recommendations_only:
  "experience_recommendations e r = r\<lparr>recommendations := recommendations (experience_recommendations e r)\<rparr>"
  unfolding experience_recommendations_def Let_def by (intro only_recs)

lemma education_recommendations_only:
  "education_recommendations e r = r\<lparr>recommendations := recommendations (education_recommendations e r)\<rparr>"
  unfolding education_recommendations_def Let_def by (intro only_recs)

lemma add_experience_education_recommendations_only:
  "add_experience_education_recommendations r =
     r\<lparr>recommendations := recommendations (add_experience_education_recommendations r)\<rparr>"
  unfolding add_experience_education_recommendations_def Let_def
  by (intro only_recs experience_recommendations_only education_recommendations_only)

lemma sa_score_skills_frame:
  "sa_score_skills r =
     r\<lparr>skill_scores := map (\<lambda>(c, info). (c, weighted_category_score (skills r) info)) skill_categories,
       recommendations := recommendations (sa_score_skills r)\<rparr>"
proof -
  let ?r1 = "r\<lparr>skill_scores := map (\<lambda>(c, info). (c, weighted_category_score (skills r) info))
                                    skill_categories\<rparr>"
  have "sa_score_skills r = ?r1\<lparr>recommendations := recommendations (sa_score_skills r)\<rparr>"
    unfolding sa_score_skills_def Let_def by (intro only_recs)
  then show ?thesis by simp
qed

lemma generate_recommendations_only:
  "generate_recommendations r = r\<lparr>recommendations := recommendations (generate_recommendations r)\<rparr>"
  unfolding generate_recommendations_def Let_def by simp

lemma extract_contact_info_frame:
  "extract_contact_info r =
     r\<lparr>name := name (extract_contact_info r), email := email (extract_contact_info r),
       phone := phone (extract_contact_info r), linkedin := linkedin (extract_contact_info r),
       website := website (extract_contact_info r),
       resume.location := resume.location (extract_contact_info r)\<rparr>"
  by (simp add: extract_contact_info_def Let_def)

lemma extract_summary_frame:
  "extract_summary r = r\<lparr>summary := summary (extract_summary r)\<rparr>"
  unfolding extract_summary_def Let_def by (simp split: prod.splits option.splits)

lemma extract_contact_info_keeps [simp]:
  "raw_text (extract_contact_info r) = raw_text r"
  "skills (extract_contact_info r) = skills r"
  "experience (extract_contact_info r) = experience r"
  "education (extract_contact_info r) = education r"
  "skill_scores (extract_contact_info r) = skill_scores r"
  by (subst extract_contact_info_frame, simp)+

lemma extract_summary_keeps [simp]:
  "raw_text (extract_summary r) = raw_text r"
  "skills (extract_summary r) = skills r"
  "experience (extract_summary r) = experience r"
  "education (extract_summary r) = education r"
  "skill_scores (extract_summary r) = skill_scores r"
  by (subst extract_summary_frame, simp)+

lemma content_analyze_keeps [simp]:
  "raw_text (content_analyze r) = raw_text r"
  "skills (content_analyze r) = skills r"
  "experience (content_analyze r) = experience r"
  "education (content_analyze r) = education r"
  "skill_scores (content_analyze r) = skill_scores r"
  by (simp_all add: content_analyze_def)

lemma sa_score_skills_keeps [simp]:
  "raw_text (sa_score_skills r) = raw_text r"
  "skills (sa_score_skills r) = skills r"
  "experience (sa_score_skills r) = experience r"
  "education (sa_score_skills r) = education r"
  by (subst sa_score_skills_frame, simp)+

lemma sa_score_skills_scores:
  "skill_scores (sa_score_skills r) =
     map (\<lambda>(c, info). (c, weighted_category_score (skills r) info)) skill_categories"
  by (subst sa_score_skills_frame) simp

lemma skills_analyze_keeps [simp]:
  "raw_text (skills_analyze sd r) = raw_text r"
  "experience (skills_analyze sd r) = experience r"
  "education (skills_analyze sd r) = education r"
  by (simp_all add: skills_analyze_def extract_skills_def)

lemma skills_analyze_skills:
  "skills (skills_analyze sd r) = sort (remdups (found_skills sd (raw_text r)))"
  by (simp add: skills_analyze_def extract_skills_def)

lemma skills_analyze_scores:
  "skill_scores (skills_analyze sd r) =
     map (\<lambda>(c, info). (c, weighted_category_score (skills (skills_analyze sd r)) info)) skill_categories"
  by (simp add: skills_analyze_def sa_score_skills_scores)

lemma add_experience_entry_result:
  assumes "add_experience_entry entry r = Inr r'"
  shows "r' = r \<or> (\<exists>e. company e \<noteq> [] \<and> r' = r\<lparr>experience := experience r @ [e]\<rparr>)"
proof -
  from assms obtain c t where ct: "extract_company_title entry = Inr (c, t)"
    by (auto simp: add_experience_entry_def split: sum.splits)
  show ?thesis
  proof (cases "c = []")
    case True
    with assms ct show ?thesis by (simp add: add_experience_entry_def)
  next
    case False
    obtain sd ed where d: "extract_dates entry = (sd, ed)" by (cases "extract_dates entry")
    obtain ds rs where x: "extract_description_responsibilities entry = (ds, rs)"
      by (cases "extract_description_responsibilities entry")
    let ?e = "\<lparr>company = c, title = t, experience_entry.start_date = sd,
               experience_entry.end_date = ed, experience_entry.location = extract_location entry,
               experience_entry.description = ds, responsibilities = rs\<rparr>"
    from assms ct False d x have "r' = r\<lparr>experience := experience r @ [?e]\<rparr>"
      by (simp add: add_experience_entry_def add_experience_def)
    moreover have "company ?e \<noteq> []" using False by simp
    ultimately show ?thesis by blast
  qed
qed

lemma add_education_entry_result:
  assumes "add_education_entry entry r = Inr r'"
  shows "r' = r \<or> (\<exists>e. institution e \<noteq> [] \<and> r' = r\<lparr>education := education r @ [e]\<rparr>)"
proof -
  from assms obtain i d where idg: "extract_institution_degree entry = Inr (i, d)"
    by (auto simp: add_education_entry_def split: sum.splits)
  show ?thesis
  proof (cases "i = []")
    case True
    with assms idg show ?thesis by (simp add: add_education_entry_def)
  next
    case False
    with assms idg obtain fl where fl: "extract_field_of_study entry d = Inr fl"
      by (auto simp: add_education_entry_def split: sum.splits)
    obtain sd ed where dt: "extract_dates entry = (sd, ed)" by (cases "extract_dates entry")
    let ?e = "\<lparr>institution = i, degree = d, field = fl, education_entry.start_date = sd,
               education_entry.end_date = ed, gpa = extract_gpa entry,
               education_entry.location = extract_location entry,
               education_entry.description = extract_education_description entry\<rparr>"
    from assms idg False fl dt have "r' = r\<lparr>education := education r @ [?e]\<rparr>"
      by (simp add: add_education_entry_def add_education_def)
    moreover have "institution ?e \<noteq> []" using False by simp
    ultimately show ?thesis by blast
  qed
qed

lemma for_entries_experience:
  "for_entries add_experience_entry entries r = Inr r' \<Longrightarrow>
   \<exists>es. list_all (\<lambda>e. company e \<noteq> []) es \<and> r' = r\<lparr>experience := experience r @ es\<rparr>"
proof (induction entries arbitrary: r)
  case Nil
  then have "r' = r\<lparr>experience := experience r @ []\<rparr>" by simp
  then show ?case by (intro exI[of _ "[]"]) simp
next
  case (Cons entry entries)
  from Cons.prems obtain r1 where r1: "add_experience_entry entry r = Inr r1"
    and rest: "for_entries add_experience_entry entries r1 = Inr r'"
    by (auto split: sum.splits)
  from Cons.IH[OF rest] obtain es where es: "list_all (\<lambda>e. company e \<noteq> []) es"
    "r' = r1\<lparr>experience := experience r1 @ es\<rparr>" by blast
  from add_experience_entry_result[OF r1] show ?case
  proof
    assume "r1 = r"
    with es show ?thesis by blast
  next
    assume "\<exists>e. company e \<noteq> [] \<and> r1 = r\<lparr>experience := experience r @ [e]\<rparr>"
    then obtain e where e: "company e \<noteq> []" "r1 = r\<lparr>experience := experience r @ [e]\<rparr>" by blast
    with es have "list_all (\<lambda>e. company e \<noteq> []) (e # es)"
      "r' = r\<lparr>experience := experience r @ (e # es)\<rparr>" by simp_all
    then show ?thesis by blast
  qed
qed

lemma for_entries_education:
  "for_entries add_education_entry entries r = Inr r' \<Longrightarrow>
   \<exists>es. list_all (\<lambda>e. institution e \<noteq> []) es \<and> r' = r\<lparr>education := education r @ es\<rparr>"
proof (induction entries arbitrary: r)
  case Nil
  then have "r' = r\<lparr>education := education r @ []\<rparr>" by simp
  then show ?case by (intro exI[of _ "[]"]) simp
next
  case (Cons entry entries)
  from Cons.prems obtain r1 where r1: "add_education_entry entry r = Inr r1"
    and rest: "for_entries add_education_entry entries r1 = Inr r'"
    by (auto split: sum.splits)
  from Cons.IH[OF rest] obtain es where es: "list_all (\<lambda>e. institution e \<noteq> []) es"
    "r' = r1\<lparr>education := education r1 @ es\<rparr>" by blast
  from add_education_entry_result[OF r1] show ?case
  proof
    assume "r1 = r"
    with es show ?thesis by blast
  next
    assume "\<exists>e. institution e \<noteq> [] \<and> r1 = r\<lparr>education := education r @ [e]\<rparr>"
    then obtain e where e: "institution e \<noteq> []" "r1 = r\<lparr>education := education r @ [e]\<rparr>" by blast
    with es have "list_all (\<lambda>e. institution e \<noteq> []) (e # es)"
      "r' = r\<lparr>education := education r @ (e # es)\<rparr>" by simp_all
    then show ?thesis by blast
  qed
qed

lemma extract_experience_result:
  "extract_experience r = Inr r' \<Longrightarrow>
   \<exists>es. list_all (\<lambda>e. company e \<noteq> []) es \<and> r' = r\<lparr>experience := experience r @ es\<rparr>"
proof -
  assume a: "extract_experience r = Inr r'"
  show ?thesis
  proof (cases "r' = r")
    case True
    then have "r' = r\<lparr>experience := experience r @ []\<rparr>" by simp
    then show ?thesis by (intro exI[of _ "[]"]) simp
  next
    case False
    with a obtain entries where "for_entries add_experience_entry entries r = Inr r'"
      by (auto simp: extract_experience_def split: option.splits if_splits)
    then show ?thesis by (rule for_entries_experience)
  qed
qed

lemma extract_education_result:
  "extract_education r = Inr r' \<Longrightarrow>
   \<exists>es. list_all (\<lambda>e. institution e \<noteq> []) es \<and> r' = r\<lparr>education := education r @ es\<rparr>"
proof -
  assume a: "extract_education r = Inr r'"
  show ?thesis
  proof (cases "r' = r")
    case True
    then have "r' = r\<lparr>education := education r @ []\<rparr>" by simp
    then show ?thesis by (intro exI[of _ "[]"]) simp
  next
    case False
    with a obtain entries where "for_entries add_education_entry entries r = Inr r'"
      by (auto simp: extract_education_def split: option.splits if_splits)
    then show ?thesis by (rule for_entries_education)
  qed
qed

lemma score_experience_education_keeps [simp]:
  "raw_text (score_experience_education r) = raw_text r"
  "skills (score_experience_education r) = skills r"
  "experience (score_experience_education r) = experience r"
  "education (score_experience_education r) = education r"
  "skill_scores (score_experience_education r) = skill_scores r"
  unfolding score_experience_education_def Let_def
  by (subst add_experience_education_recommendations_only, simp)+

lemma experience_analyze_result:
  assumes "experience_analyze r = Inr r'"
  shows "\<exists>xs ds. list_all (\<lambda>e. company e \<noteq> []) xs \<and> list_all (\<lambda>e. institution e \<noteq> []) ds
           \<and> r' = score_experience_education
                    (r\<lparr>experience := experience r @ xs, education := education r @ ds\<rparr>)"
proof -
  from assms obtain r1 r2 where r1: "extract_experience r = Inr r1"
    and r2: "extract_education r1 = Inr r2" and r': "r' = score_experience_education r2"
    by (auto simp: experience_analyze_def split: sum.splits)
  from extract_experience_result[OF r1] obtain xs where
    xs: "list_all (\<lambda>e. company e \<noteq> []) xs" "r1 = r\<lparr>experience := experience r @ xs\<rparr>" by blast
  from extract_education_result[OF r2] obtain ds where
    ds: "list_all (\<lambda>e. institution e \<noteq> []) ds" "r2 = r1\<lparr>education := education r1 @ ds\<rparr>" by blast
  from xs ds r' have "r' = score_experience_education
                    (r\<lparr>experience := experience r @ xs, education := education r @ ds\<rparr>)" by simp
  with xs ds show ?thesis by blast
qed

lemma analyze_resume_result:
  assumes "analyze_resume sd s f = Inr r"
  shows "raw_text r = s"
    and "skills r = sort (remdups (found_skills sd s))"
    and "skill_scores r = map (\<lambda>(c, info). (c, weighted_category_score (skills r) info)) skill_categories"
    and "list_all (\<lambda>e. company e \<noteq> []) (experience r)"
    and "list_all (\<lambda>e. institution e \<noteq> []) (education r)"
proof -
  let ?r2 = "skills_analyze sd (content_analyze (Resume s f))"
  from assms have "experience_analyze ?r2 = Inr r" by (simp add: analyze_resume_def)
  from experience_analyze_result[OF this] obtain xs ds where
    xs: "list_all (\<lambda>e. company e \<noteq> []) xs" and ds: "list_all (\<lambda>e. institution e \<noteq> []) ds"
    and r: "r = score_experience_education
                    (?r2\<lparr>experience := experience ?r2 @ xs, education := education ?r2 @ ds\<rparr>)"
    by blast
  have init: "experience (Resume s f) = []" "education (Resume s f) = []" "raw_text (Resume s f) = s"
    by (simp_all add: Resume_def)
  show "raw_text r = s" by (simp add: r init)
  show sk: "skills r = sort (remdups (found_skills sd s))"
    by (simp add: r init skills_analyze_skills)
  show "skill_scores r = map (\<lambda>(c, info). (c, weighted_category_score (skills r) info)) skill_categories"
    unfolding sk by (simp add: r skills_analyze_scores skills_analyze_skills init)
  show "list_all (\<lambda>e. company e \<noteq> []) (experience r)" by (simp add: r init xs)
  show "list_all (\<lambda>e. institution e \<noteq> []) (education r)" by (simp add: r init ds)
qed

lemma score_resume_keeps [simp]:
  "raw_text (score_resume now r) = raw_text r"
  "skills (score_resume now r) = skills r"
  "experience (score_resume now r) = experience r"
  "education (score_resume now r) = education r"
  "skill_scores (score_resume now r) = skill_scores r"
  by (simp_all add: score_resume_def Let_def)

lemma generate_recommendations_keeps [simp]:
  "raw_text (generate_recommendations r) = raw_text r"
  "skills (generate_recommendations r) = skills r"
  "experience (generate_recommendations r) = experience r"
  "education (generate_recommendations r) = education r"
  "skill_scores (generate_recommendations r) = skill_scores r"
  "skill_score (generate_recommendations r) = skill_score r"
  "resume.format_score (generate_recommendations r) = resume.format_score r"
  "experience_score (generate_recommendations r) = experience_score r"
  "education_score (generate_recommendations r) = education_score r"
  "overall_score (generate_recommendations r) = overall_score r"
  by (subst generate_recommendations_only, simp)+

lemma process_resume_returns:
  "\<exists>r0. analyze_resume sd s f = Inr r0 \<and>
        process_resume sd now s f =
          Inr (generate_recommendations (score_resume now r0),
               ats_analyze (generate_recommendations (score_resume now r0)))"
proof -
  from analyze_resume_returns obtain r0 where "analyze_resume sd s f = Inr r0" by blast
  then show ?thesis by (simp add: process_resume_def Let_def)
qed


text \<open>
  Claim C4. For every analyzed resume, the final skills list is sorted in ascending
  order and has no duplicate entry (strings compared as they are, case included). This
  holds for the resume that \<open>analyze_resume\<close> returns and for the one that the dashboard
  pipeline returns, whatever the skills data.
\<close>

theorem skills_sorted_and_distinct:
  "(\<exists>r. analyze_resume sd s f = Inr r \<and> sorted (skills r) \<and> distinct (skills r))
   \<and> (\<exists>r a. process_resume sd now s f = Inr (r, a) \<and> sorted (skills r) \<and> distinct (skills r))"
proof -
  from process_resume_returns obtain r0 where r0: "analyze_resume sd s f = Inr r0"
    and p: "process_resume sd now s f =
          Inr (generate_recommendations (score_resume now r0),
               ats_analyze (generate_recommendations (score_resume now r0)))" by blast
  have sk: "sorted (skills r0) \<and> distinct (skills r0)"
    by (simp add: analyze_resume_result(2)[OF r0])
  with r0 have "\<exists>r. analyze_resume sd s f = Inr r \<and> sorted (skills r) \<and> distinct (skills r)"
    by blast
  moreover from sk p
  have "\<exists>r a. process_resume sd now s f = Inr (r, a) \<and> sorted (skills r) \<and> distinct (skills r)"
    by simp
  ultimately show ?thesis by blast
qed


text \<open>
  Claim C9. For every input text, every experience record appended to the profile has
  a non-empty company and every education record a non-empty institution, in the result
  of \<open>analyze_resume\<close> and in the result of the dashboard pipeline; and an entry for which
  the company (the institution) comes out empty appends no record: the loop body
  returns the resume unchanged.
\<close>

theorem records_have_organization:
  "(\<exists>r. analyze_resume sd s f = Inr r
        \<and> list_all (\<lambda>e. company e \<noteq> []) (experience r)
        \<and> list_all (\<lambda>e. institution e \<noteq> []) (education r))
   \<and> (\<exists>r a. process_resume sd now s f = Inr (r, a)
        \<and> list_all (\<lambda>e. company e \<noteq> []) (experience r)
        \<and> list_all (\<lambda>e. institution e \<noteq> []) (education r))
   \<and> (extract_company_title entry = Inr ([], t) \<longrightarrow> add_experience_entry entry r0 = Inr r0)
   \<and> (extract_institution_degree entry' = Inr ([], d) \<longrightarrow> add_education_entry entry' r0 = Inr r0)"
proof -
  from process_resume_returns obtain r1 where r1: "analyze_resume sd s f = Inr r1"
    and p: "process_resume sd now s f =
          Inr (generate_recommendations (score_resume now r1),
               ats_analyze (generate_recommendations (score_resume now r1)))" by blast
  have ok: "list_all (\<lambda>e. company e \<noteq> []) (experience r1)"
    "list_all (\<lambda>e. institution e \<noteq> []) (education r1)"
    using analyze_resume_result(4,5)[OF r1] by simp_all
  with r1 have a: "\<exists>r. analyze_resume sd s f = Inr r
        \<and> list_all (\<lambda>e. company e \<noteq> []) (experience r)
        \<and> list_all (\<lambda>e. institution e \<noteq> []) (education r)" by blast
  from ok p have b: "\<exists>r a. process_resume sd now s f = Inr (r, a)
        \<and> list_all (\<lambda>e. company e \<noteq> []) (experience r)
        \<and> list_all (\<lambda>e. institution e \<noteq> []) (education r)" by simp
  have c: "extract_company_title entry = Inr ([], t) \<longrightarrow> add_experience_entry entry r0 = Inr r0"
    by (simp add: add_experience_entry_def)
  have d: "extract_institution_degree entry' = Inr ([], d) \<longrightarrow> add_education_entry entry' r0 = Inr r0"
    by (simp add: add_education_entry_def)
  from a b c d show ?thesis by blast
qed

text \<open>The entries \<open>Engineer,\<close> and \<open>BSc,\<close> give a title and a degree but no company and
  no institution.\<close>

theorem records_have_organization_witness:
  "extract_company_title ''Engineer,'' = Inr ([], ''Engineer'')
   \<and> add_experience_entry ''Engineer,'' (Resume [] ''cv.txt'') = Inr (Resume [] ''cv.txt'')
   \<and> extract_institution_degree ''BSc,'' = Inr ([], ''BSc'')
   \<and> add_education_entry ''BSc,'' (Resume [] ''cv.txt'') = Inr (Resume [] ''cv.txt'')"
proof -
  have c: "extract_company_title ''Engineer,'' = Inr ([], ''Engineer'')" by code_simp
  have d: "extract_institution_degree ''BSc,'' = Inr ([], ''BSc'')" by code_simp
  from records_have_organization[of DEFAULT_SKILLS "[]" "''cv.txt''" "(2026, 11)" "''Engineer,''"
      "''Engineer''" "Resume [] ''cv.txt''" "''BSc,''" "''BSc''"] c d
  show ?thesis by blast
qed


end
